theory Spec2Isabelle
  imports Main "HOL-Library.Word" "HOL-Library.AList"
begin

section \<open>JavaScript values\<close>

text \<open>
  A JavaScript string is a sequence of UTF-16 code units; \<open>charCodeAt\<close> reads one of
  them. File contents, which \<open>getHash\<close> reads unit by unit, are lists of 16-bit words.
  Paths, error codes and error messages are only compared and concatenated, and are
  HOL strings.
\<close>

type_synonym js_text = "16 word list"

text \<open>
  A thrown value or a rejection: \<open>err.code\<close> (undefined on a plain \<open>Error\<close> and on a
  \<open>SyntaxError\<close>, the errno name on a \<open>NodeJS.ErrnoException\<close>) and \<open>err.message\<close>.
\<close>

datatype js_error = JsError (code: "string option") (message: string)

text \<open>\<open>new Error(msg)\<close>.\<close>

definition new_Error :: "string \<Rightarrow> js_error" where
  "new_Error msg = JsError None msg"

text \<open>What \<open>assert.ok(value, msg)\<close> throws on a falsy value.\<close>

definition AssertionError :: "string \<Rightarrow> js_error" where
  "AssertionError msg = JsError (Some ''ERR_ASSERTION'') msg"

section \<open>Data model\<close>

text \<open>
  \<open>type FileInfo = { filePath: string; fileData: string; dateUpdated: number; changed: boolean }\<close>.
  The fields carry the record's name: \<open>filePath\<close>, \<open>fileData\<close> and \<open>changed\<close> are also
  names of variables of the source, and \<open>dateUpdated\<close> is also a field of \<open>CacheEntry\<close>.
\<close>

record FileInfo =
  fileInfo_filePath :: string
  fileInfo_fileData :: js_text
  fileInfo_dateUpdated :: int
  fileInfo_changed :: bool

text \<open>
  \<open>type CacheEntry = { dateUpdated: number; hash: number }\<close>. Both numbers are integers
  in every value the program builds (\<open>+stats.ctime\<close> is a count of milliseconds,
  \<open>getHash\<close> returns a 32-bit integer); they are unbounded integers here, and the
  subtraction in \<open>isNewer\<close> is exact.
\<close>

record CacheEntry =
  dateUpdated :: int
  hash :: int

text \<open>
  \<open>type CacheFile = { [key: string]: CacheEntry }\<close>: a plain object used as a dictionary.
  Its own properties are created by \<open>JSON.parse\<close> and by assignment, in an order that
  the association list \<open>own\<close> keeps. Its prototype is \<open>Object.prototype\<close> (\<open>None\<close>) until an
  assignment to the key \<open>__proto__\<close> replaces it by a cache entry.
\<close>

type_synonym properties = "(string \<times> CacheEntry) list"

record CacheFile =
  own :: properties
  prototype :: "CacheEntry option"

text \<open>
  The object with the given own properties and the prototype \<open>Object.prototype\<close>: what
  \<open>JSON.parse\<close> builds, and the literal \<open>{}\<close> when there are none.
\<close>

definition object_of :: "properties \<Rightarrow> CacheFile" where
  "object_of ps = \<lparr>own = ps, prototype = None\<rparr>"

section \<open>Reading and assigning a property of a bucket\<close>

text \<open>
  What \<open>cacheFile[key]\<close> can evaluate to: \<open>undefined\<close>, a number (a field of the entry
  that has become the prototype), a cache entry, a function member of
  \<open>Object.prototype\<close>, or \<open>Object.prototype\<close> itself. \<open>Empty_object\<close> is the literal \<open>{}\<close> of
  \<open>cacheFile[filePath] || {}\<close>.
\<close>

datatype js_value =
  Undefined | Number int | Entry CacheEntry | Builtin string | Object_prototype | Empty_object

text \<open>
  The function members of \<open>Object.prototype\<close> (ECMAScript with Annex B, as in Node); its
  one other property is the accessor \<open>__proto__\<close>.
\<close>

definition Object_prototype_names :: "string list" where
  "Object_prototype_names =
     [''constructor'', ''hasOwnProperty'', ''isPrototypeOf'', ''propertyIsEnumerable'',
      ''toLocaleString'', ''toString'', ''valueOf'',
      ''__defineGetter__'', ''__defineSetter__'', ''__lookupGetter__'', ''__lookupSetter__'']"

definition inherited :: "string \<Rightarrow> js_value" where
  "inherited key = (if key \<in> set Object_prototype_names then Builtin key else Undefined)"

text \<open>
  \<open>cacheFile[key]\<close>, read: the own property if there is one, else the prototype chain.
  With the prototype \<open>Object.prototype\<close>, the getter of \<open>__proto__\<close> returns the prototype
  and every other member is a function. With an entry as prototype, the entry's own
  \<open>dateUpdated\<close> and \<open>hash\<close> come first, then \<open>Object.prototype\<close> as before.
\<close>

definition get_property :: "CacheFile \<Rightarrow> string \<Rightarrow> js_value" where
  "get_property cacheFile key =
     (case map_of (own cacheFile) key of
        Some entry \<Rightarrow> Entry entry
      | None \<Rightarrow>
          (case prototype cacheFile of
             None \<Rightarrow> if key = ''__proto__'' then Object_prototype else inherited key
           | Some p \<Rightarrow>
               if key = ''dateUpdated'' then Number (dateUpdated p)
               else if key = ''hash'' then Number (hash p)
               else if key = ''__proto__'' then Entry p
               else inherited key))"

text \<open>
  \<open>cacheFile[key] = entry\<close>: an own property is overwritten. Otherwise, when the key is
  \<open>__proto__\<close>, the setter inherited from \<open>Object.prototype\<close> runs and makes the entry the
  prototype of the bucket, and no property is created; for every other key (the
  inherited members are writable data properties) a new own property is created.
\<close>

definition set_property :: "CacheFile \<Rightarrow> string \<Rightarrow> CacheEntry \<Rightarrow> CacheFile" where
  "set_property cacheFile key entry =
     (if map_of (own cacheFile) key = None \<and> key = ''__proto__''
      then cacheFile\<lparr>prototype := Some entry\<rparr>
      else cacheFile\<lparr>own := AList.update key entry (own cacheFile)\<rparr>)"

text \<open>Truthiness, \<open>a || b\<close>, and the reads \<open>v.dateUpdated\<close> and \<open>v.hash\<close> (\<open>None\<close> is \<open>undefined\<close>).\<close>

definition truthy :: "js_value \<Rightarrow> bool" where
  "truthy v = (case v of Undefined \<Rightarrow> False | Number n \<Rightarrow> n \<noteq> 0 | _ \<Rightarrow> True)"

definition js_or :: "js_value \<Rightarrow> js_value \<Rightarrow> js_value" where
  "js_or a b = (if truthy a then a else b)"

definition dateUpdated_of :: "js_value \<Rightarrow> int option" where
  "dateUpdated_of v = (case v of Entry entry \<Rightarrow> Some (dateUpdated entry) | _ \<Rightarrow> None)"

definition hash_of :: "js_value \<Rightarrow> int option" where
  "hash_of v = (case v of Entry entry \<Rightarrow> Some (hash entry) | _ \<Rightarrow> None)"

section \<open>ContentFingerprint\<close>

text \<open>The abstract operation ToInt32 of the language: reduce modulo \<open>2^32\<close> into the signed range.\<close>

definition toInt32 :: "int \<Rightarrow> int" where
  "toInt32 x = (x + 2 ^ 31) mod 2 ^ 32 - 2 ^ 31"

text \<open>\<open>x << n\<close>: both operands through ToInt32/ToUint32, the shift count masked to five bits.\<close>

definition shl :: "int \<Rightarrow> nat \<Rightarrow> int" where
  "shl x n = toInt32 (toInt32 x * 2 ^ (n mod 32))"

text \<open>
  One pass of the loop body:
  \<^verbatim>\<open>hash = ((hash << 5) - hash) + chr; hash |= 0;\<close>
  The subtraction and the addition are exact (all three operands are below \<open>2^32\<close> in
  size); \<open>hash |= 0\<close> is ToInt32.
\<close>

definition hash_step :: "int \<Rightarrow> 16 word \<Rightarrow> int" where
  "hash_step h chr = toInt32 ((shl h 5 - h) + uint chr)"

text \<open>
  \<^verbatim>\<open>
  export function getHash(text: string): number {
    let hash = 0;
    if (text.length === 0) { return hash; }
    for (let i = 0; i < text.length; i++) { ... }
    return hash;
  }\<close>
\<close>

definition getHash :: "js_text \<Rightarrow> int" where
  "getHash str = (if length str = 0 then 0 else foldl hash_step 0 str)"

section \<open>What the cache core takes from outside\<close>

text \<open>
  \<open>rootPath\<close> and \<open>hashCacheDir\<close> are imported from \<open>./lint-fmt-common\<close>, which is not
  among the sources; \<open>path.join\<close>, \<open>path.relative\<close>, \<open>path.dirname\<close>, \<open>JSON.parse\<close> and
  \<open>JSON.stringify\<close> belong to the platform. All of them are parameters of the model.
  \<open>JSON_parse\<close> returns the message of the \<open>SyntaxError\<close> it throws, or the own
  properties of the parsed document, at its declared type \<open>CacheFile\<close>; \<open>JSON_stringify\<close>
  reads the own properties of a bucket and nothing else.
\<close>

record node_env =
  rootPath :: string
  hashCacheDir :: string
  path_join :: "string list \<Rightarrow> string"
  path_relative :: "string \<Rightarrow> string \<Rightarrow> string"
  path_dirname :: "string \<Rightarrow> string"
  JSON_parse :: "js_text \<Rightarrow> string + properties"
  JSON_stringify :: "properties \<Rightarrow> js_text"

text \<open>
  \<^verbatim>\<open>
  function getHashPath(filePath: string) {
    const relative = path.relative(path.join(rootPath, 'website'), filePath);
    return path.join(rootPath, hashCacheDir, path.dirname(relative) + '.json');
  }\<close>
\<close>

definition getHashPath :: "node_env \<Rightarrow> string \<Rightarrow> string" where
  "getHashPath E filePath =
     (let relative = path_relative E (path_join E [rootPath E, ''website'']) filePath
      in path_join E [rootPath E, hashCacheDir E, path_dirname E relative @ ''.json''])"

section \<open>State: the overlay and the file system\<close>

text \<open>
  \<open>localCache\<close> is the module's \<open>Map<string, CacheFile>\<close>. The file system is what the
  three helpers of \<open>fs-helpers\<close> observe of it: \<open>files\<close> is the outcome of
  \<open>fs.readFile(p, 'utf-8')\<close>, \<open>ctimes\<close> the outcome of \<open>fs.stat(p)\<close> read as \<open>+stats.ctime\<close>,
  \<open>write_error\<close> the error, if any, with which \<open>mkdirp\<close> followed by \<open>fs.writeFile\<close>
  fails for a target. \<open>writes\<close> logs every call of \<open>writeFilep\<close>. A write that succeeds
  changes what \<open>readFile\<close> returns for its target; directories and the timestamps of
  written documents are not tracked.
\<close>

record state =
  localCache :: "string \<rightharpoonup> CacheFile"
  files :: "string \<Rightarrow> js_error + js_text"
  ctimes :: "string \<Rightarrow> js_error + int"
  write_error :: "string \<Rightarrow> js_error option"
  writes :: "(string \<times> js_text) list"

text \<open>
  \<open>stat\<close> and \<open>readFile\<close> of \<open>fs-helpers\<close>: \<open>assert.ok(filename, ...)\<close>, then the call of
  \<open>fs\<close>, rejecting with its error. (The messages of the assertions are written without
  the backquotes they have in the source.)
\<close>

definition stat :: "state \<Rightarrow> string \<Rightarrow> js_error + int" where
  "stat s filename =
     (if filename = [] then Inl (AssertionError ''filename is required for readLines'')
      else ctimes s filename)"

definition readFile :: "state \<Rightarrow> string \<Rightarrow> js_error + js_text" where
  "readFile s filename =
     (if filename = [] then Inl (AssertionError ''filename is required for readFile'')
      else files s filename)"

text \<open>
  \<^verbatim>\<open>
  function writeFilep(target, text, options = {}) {
    assert.ok(target, ...); assert.ok(text, ...);
    return mkdirp(path.dirname(target), options).then(() => writeFile(target, text));
  }\<close>
\<close>

definition writeFilep :: "string \<Rightarrow> js_text \<Rightarrow> state \<Rightarrow> (js_error + unit) \<times> state" where
  "writeFilep target str s =
     (let s1 = s\<lparr>writes := writes s @ [(target, str)]\<rparr> in
      if target = [] then (Inl (AssertionError ''target is required for writeFilep''), s1)
      else if str = [] then (Inl (AssertionError ''text is required for writeFilep''), s1)
      else (case write_error s target of
              Some err \<Rightarrow> (Inl err, s1)
            | None \<Rightarrow> (Inr (), s1\<lparr>files := (files s)(target := Inr str)\<rparr>)))"

section \<open>CacheStore\<close>

text \<open>
  The value \<open>getCacheFile\<close> resolves with is a reference to an object. It is either the
  object that \<open>localCache\<close> holds under the bucket's key, so that assigning to one of its
  properties changes the overlay, or an object literal \<open>{}\<close> that nothing else refers
  to. The reference carries the object's present contents.
\<close>

datatype bucket_ref = InOverlay (contents: CacheFile) | Fresh (contents: CacheFile)

text \<open>
  The rejection handler of \<open>getCacheFile\<close>:
  \<^verbatim>\<open>
  .catch((err) => {
    if (err.code !== 'ENOENT') { throw new Error(err.message); }
    return Promise.resolve({} as CacheFile);
  })\<close>
\<close>

definition catch_handler :: "js_error \<Rightarrow> js_error + bucket_ref" where
  "catch_handler err =
     (if code err \<noteq> Some ''ENOENT'' then Inl (new_Error (message err))
      else Inr (Fresh (object_of [])))"

text \<open>
  \<^verbatim>\<open>
  function getCacheFile(filePath: string): Promise<CacheFile> {
    const hashPath = getHashPath(filePath);
    const localCacheFile = localCache.get(hashPath);
    if (localCacheFile) { return Promise.resolve(localCacheFile); }
    return readFile(hashPath)
    .then(data => {
      const cacheFile: CacheFile = JSON.parse(data);
      localCache.set(hashPath, cacheFile);
      return cacheFile;
    })
    .catch(...);
  }\<close>
  The assertion of \<open>readFile\<close> throws before there is a promise, so it does not reach
  the handler; a rejected read and a \<open>SyntaxError\<close> of \<open>JSON.parse\<close> do.
\<close>

definition getCacheFile :: "node_env \<Rightarrow> string \<Rightarrow> state \<Rightarrow> (js_error + bucket_ref) \<times> state" where
  "getCacheFile E filePath s =
     (let hashPath = getHashPath E filePath in
      case localCache s hashPath of
        Some localCacheFile \<Rightarrow> (Inr (InOverlay localCacheFile), s)
      | None \<Rightarrow>
          if hashPath = [] then (Inl (AssertionError ''filename is required for readFile''), s)
          else (case readFile s hashPath of
                  Inl err \<Rightarrow> (catch_handler err, s)
                | Inr data \<Rightarrow>
                    (case JSON_parse E data of
                       Inl msg \<Rightarrow> (catch_handler (JsError None msg), s)
                     | Inr parsed \<Rightarrow>
                         (let cacheFile = object_of parsed in
                          (Inr (InOverlay cacheFile),
                           s\<lparr>localCache := (localCache s)(hashPath \<mapsto> cacheFile)\<rparr>)))))"

text \<open>
  \<^verbatim>\<open>
  function getCacheEntry(filePath: string): Promise<CacheEntry> {
    return getCacheFile(filePath).then(cacheFile => {
      return cacheFile[filePath] || { dateUpdated: 0, hash: 0 } as CacheEntry;
    });
  }\<close>
  The declared result is a \<open>CacheEntry\<close>; the value is whatever \<open>cacheFile[filePath]\<close>
  evaluates to when that is truthy.
\<close>

definition getCacheEntry :: "node_env \<Rightarrow> string \<Rightarrow> state \<Rightarrow> (js_error + js_value) \<times> state" where
  "getCacheEntry E filePath s =
     (case getCacheFile E filePath s of
        (Inl err, s1) \<Rightarrow> (Inl err, s1)
      | (Inr cacheFile, s1) \<Rightarrow>
          (Inr (js_or (get_property (contents cacheFile) filePath)
                      (Entry \<lparr>dateUpdated = 0, hash = 0\<rparr>)), s1))"

text \<open>
  \<^verbatim>\<open>
  function fileInfoComparer(a: CacheEntry, b: CacheEntry) {
    return a.dateUpdated === b.dateUpdated && a.hash === b.hash;
  }\<close>
  The second argument is always an entry built by \<open>setCacheEntry\<close>; the first is what
  \<open>cacheFile[filePath] || {}\<close> evaluated to, and a field it does not have is \<open>undefined\<close>,
  which is not \<open>===\<close> to a number.
\<close>

definition fileInfoComparer :: "js_value \<Rightarrow> CacheEntry \<Rightarrow> bool" where
  "fileInfoComparer a b =
     (dateUpdated_of a = Some (dateUpdated b) \<and> hash_of a = Some (hash b))"

text \<open>\<open>function setCacheFile(hashPath, cacheFile) { return writeFilep(hashPath, JSON.stringify(cacheFile)); }\<close>\<close>

definition setCacheFile :: "node_env \<Rightarrow> string \<Rightarrow> CacheFile \<Rightarrow> state \<Rightarrow> (js_error + unit) \<times> state" where
  "setCacheFile E hashPath cacheFile s =
     writeFilep hashPath (JSON_stringify E (own cacheFile)) s"

text \<open>
  \<^verbatim>\<open>
  function setCacheEntry(dateUpdated: number, filePath: string, fileData: string): Promise<CacheEntry> {
    console.log('setCacheEntry' + filePath);
    const cacheEntry: CacheEntry = { dateUpdated, hash: getHash(fileData) };
    return getCacheFile(filePath).then(cacheFile => {
      if (fileInfoComparer(cacheFile[filePath] || {}, cacheEntry)) { return cacheEntry; }
      // cacheFile is always a reference to the local cache; this will update it
      cacheFile[filePath] = cacheEntry;
      const hashPath = getHashPath(filePath);
      return setCacheFile(hashPath, cacheFile).then(() => cacheEntry);
    });
  }\<close>
  The assignment changes the object that \<open>cacheFile\<close> refers to: the overlay's when the
  reference is into the overlay, a private one otherwise. The console output is not
  modelled.
\<close>

definition setCacheEntry :: "node_env \<Rightarrow> int \<Rightarrow> string \<Rightarrow> js_text \<Rightarrow> state \<Rightarrow> (js_error + CacheEntry) \<times> state" where
  "setCacheEntry E dateUpdated' filePath fileData s =
     (let cacheEntry = \<lparr>dateUpdated = dateUpdated', hash = getHash fileData\<rparr> in
      case getCacheFile E filePath s of
        (Inl err, s1) \<Rightarrow> (Inl err, s1)
      | (Inr cacheFile, s1) \<Rightarrow>
          if fileInfoComparer (js_or (get_property (contents cacheFile) filePath) Empty_object)
                              cacheEntry
          then (Inr cacheEntry, s1)
          else
            (let cacheFile' = set_property (contents cacheFile) filePath cacheEntry;
                 hashPath = getHashPath E filePath;
                 s2 = (case cacheFile of
                         InOverlay _ \<Rightarrow> s1\<lparr>localCache := (localCache s1)(hashPath \<mapsto> cacheFile')\<rparr>
                       | Fresh _ \<Rightarrow> s1)
             in case setCacheFile E hashPath cacheFile' s2 of
                  (Inl err, s3) \<Rightarrow> (Inl err, s3)
                | (Inr _, s3) \<Rightarrow> (Inr cacheEntry, s3)))"

section \<open>ChangeDetector and CacheWriter\<close>

text \<open>
  \<^verbatim>\<open>
  const gracePeriodMilliseconds = 1000 * 60 * 2;
  function isNewer(date: number, comparedToDate: number) {
    return (date - gracePeriodMilliseconds) > comparedToDate;
  }\<close>
\<close>

definition gracePeriodMilliseconds :: int where
  "gracePeriodMilliseconds = 1000 * 60 * 2"

definition isNewer :: "int \<Rightarrow> int \<Rightarrow> bool" where
  "isNewer date comparedToDate = (date - gracePeriodMilliseconds > comparedToDate)"

text \<open>
  \<^verbatim>\<open>
  export function getCached(filePath: string): Promise<FileInfo> {
    const hashPath = getHashPath(filePath);
    return Promise.all([stat(filePath), readFile(filePath)]).then(([stats, fileData]) => {
      return getCacheEntry(hashPath).then(cacheEntry => {
        const hash = getHash(fileData);
        const dateUpdated = +stats.ctime;
        const changed = hash !== cacheEntry.hash || isNewer(dateUpdated, cacheEntry.dateUpdated);
        const fileInfo: FileInfo = { changed, fileData, filePath, dateUpdated };
        return fileInfo;
      });
    });
  }\<close>
  The two reads are independent of each other and change nothing; when both fail the
  model reports the error of \<open>stat\<close>. \<open>hash !== cacheEntry.hash\<close> holds when the value has no
  field \<open>hash\<close>; \<open>isNewer\<close> of an undefined date compares with \<open>NaN\<close> and is false.
\<close>

definition getCached :: "node_env \<Rightarrow> string \<Rightarrow> state \<Rightarrow> (js_error + FileInfo) \<times> state" where
  "getCached E filePath s =
     (let hashPath = getHashPath E filePath in
      case stat s filePath of
        Inl err \<Rightarrow> (Inl err, s)
      | Inr ctime \<Rightarrow>
          (case readFile s filePath of
             Inl err \<Rightarrow> (Inl err, s)
           | Inr fileData \<Rightarrow>
               (case getCacheEntry E hashPath s of
                  (Inl err, s1) \<Rightarrow> (Inl err, s1)
                | (Inr cacheEntry, s1) \<Rightarrow>
                    (let hash' = getHash fileData;
                         dateUpdated' = ctime;
                         changed = (hash_of cacheEntry \<noteq> Some hash'
                                    \<or> (case dateUpdated_of cacheEntry of
                                          Some d \<Rightarrow> isNewer dateUpdated' d
                                        | None \<Rightarrow> False))
                     in (Inr \<lparr>fileInfo_filePath = filePath, fileInfo_fileData = fileData,
                               fileInfo_dateUpdated = dateUpdated', fileInfo_changed = changed\<rparr>,
                         s1)))))"

text \<open>
  \<^verbatim>\<open>
  export function updateCache(filePath: string): Promise<CacheEntry> {
    return Promise.all([stat(filePath), readFile(filePath)]).then(([stats, fileData]) => {
      return setCacheEntry(+stats.ctime, filePath, fileData);
    });
  }\<close>
\<close>

definition updateCache :: "node_env \<Rightarrow> string \<Rightarrow> state \<Rightarrow> (js_error + CacheEntry) \<times> state" where
  "updateCache E filePath s =
     (case stat s filePath of
        Inl err \<Rightarrow> (Inl err, s)
      | Inr ctime \<Rightarrow>
          (case readFile s filePath of
             Inl err \<Rightarrow> (Inl err, s)
           | Inr fileData \<Rightarrow> setCacheEntry E ctime filePath fileData s))"

section \<open>A concrete environment for the scenarios\<close>

text \<open>
  The scenarios are run in one environment: POSIX paths, \<open>rootPath = /r\<close>,
  \<open>hashCacheDir = .fs-hash\<close> (the directory the README names), and the process running in
  \<open>/r/website\<close>, against which \<open>path.relative\<close> resolves a relative path. The functions
  below follow \<open>path.posix\<close> of Node on paths without trailing or repeated slashes.
\<close>

text \<open>\<open>p.split('/')\<close>.\<close>

fun split_path :: "string \<Rightarrow> string list" where
  "split_path [] = [[]]"
| "split_path (c # cs) =
     (if c = CHR ''/'' then [] # split_path cs
      else (case split_path cs of seg # segs \<Rightarrow> (c # seg) # segs | [] \<Rightarrow> [[c]]))"

text \<open>\<open>segments.join(sep)\<close>.\<close>

fun join_with :: "'a list \<Rightarrow> 'a list list \<Rightarrow> 'a list" where
  "join_with sep [] = []"
| "join_with sep [x] = x"
| "join_with sep (x # y # ys) = x @ sep @ join_with sep (y # ys)"

text \<open>
  \<open>normalizeString\<close> of Node: empty segments and \<open>.\<close> are dropped, \<open>..\<close> removes the
  segment before it; at the start of a relative path it stays, at the root it is dropped.
\<close>

fun normalize_segments :: "bool \<Rightarrow> string list \<Rightarrow> string list \<Rightarrow> string list" where
  "normalize_segments allowAboveRoot res [] = rev res"
| "normalize_segments allowAboveRoot res (seg # segs) =
     (if seg = [] \<or> seg = ''.'' then normalize_segments allowAboveRoot res segs
      else if seg = ''..'' then
        (case res of
           seg0 # rest \<Rightarrow>
             if seg0 = ''..'' then normalize_segments allowAboveRoot (seg # res) segs
             else normalize_segments allowAboveRoot rest segs
         | [] \<Rightarrow>
             if allowAboveRoot then normalize_segments allowAboveRoot [seg] segs
             else normalize_segments allowAboveRoot [] segs)
      else normalize_segments allowAboveRoot (seg # res) segs)"

definition isAbsolute :: "string \<Rightarrow> bool" where
  "isAbsolute p = (case p of [] \<Rightarrow> False | c # _ \<Rightarrow> c = CHR ''/'')"

definition posix_normalize :: "string \<Rightarrow> string" where
  "posix_normalize p =
     (let body = join_with ''/'' (normalize_segments (\<not> isAbsolute p) [] (split_path p))
      in if isAbsolute p then CHR ''/'' # body else if body = [] then ''.'' else body)"

definition posix_join :: "string list \<Rightarrow> string" where
  "posix_join parts =
     (let joined = join_with ''/'' (filter (\<lambda>p. p \<noteq> []) parts)
      in if joined = [] then ''.'' else posix_normalize joined)"

text \<open>\<open>path.dirname\<close>: the path up to its last slash; \<open>.\<close> when there is none, \<open>/\<close> at the root.\<close>

definition posix_dirname :: "string \<Rightarrow> string" where
  "posix_dirname p =
     (let parent = join_with ''/'' (butlast (split_path p))
      in if parent \<noteq> [] then parent else if isAbsolute p then ''/'' else ''.'')"

text \<open>\<open>path.resolve\<close> with the working directory \<open>cwd\<close>, and \<open>path.relative\<close>.\<close>

definition posix_resolve :: "string \<Rightarrow> string \<Rightarrow> string" where
  "posix_resolve cwd p = posix_normalize (if isAbsolute p then p else cwd @ ''/'' @ p)"

fun drop_common :: "string list \<Rightarrow> string list \<Rightarrow> string list \<times> string list" where
  "drop_common (x # xs) (y # ys) = (if x = y then drop_common xs ys else (x # xs, y # ys))"
| "drop_common xs ys = (xs, ys)"

definition posix_relative :: "string \<Rightarrow> string \<Rightarrow> string \<Rightarrow> string" where
  "posix_relative cwd from to =
     (case drop_common (filter (\<lambda>p. p \<noteq> []) (split_path (posix_resolve cwd from)))
                       (filter (\<lambda>p. p \<noteq> []) (split_path (posix_resolve cwd to))) of
        (up, down) \<Rightarrow> join_with ''/'' (map (\<lambda>_. ''..'') up @ down))"

text \<open>
  The code units of an ASCII literal, and \<open>JSON.stringify\<close> on a bucket whose keys need no
  escaping: \<open>{"key":{"dateUpdated":n,"hash":m},...}\<close>, the properties in insertion order,
  the numbers in decimal.
\<close>

definition js_string :: "string \<Rightarrow> js_text" where
  "js_string cs = map (\<lambda>c. word_of_nat (of_char c)) cs"

fun decimal :: "nat \<Rightarrow> string" where
  "decimal n =
     (if n < 10 then [''0123456789'' ! n]
      else decimal (n div 10) @ [''0123456789'' ! (n mod 10)])"

definition number_text :: "int \<Rightarrow> string" where
  "number_text i = (if i < 0 then CHR ''-'' # decimal (nat (- i)) else decimal (nat i))"

definition entry_text :: "string \<times> CacheEntry \<Rightarrow> string" where
  \<open>entry_text p =
     ''"'' @ fst p @ ''":{"dateUpdated":'' @ number_text (dateUpdated (snd p))
       @ '',"hash":'' @ number_text (hash (snd p)) @ ''}''\<close>

definition scenario_stringify :: "properties \<Rightarrow> js_text" where
  "scenario_stringify cacheFile =
     js_string (''{'' @ join_with '','' (map entry_text cacheFile) @ ''}'')"

text \<open>
  \<open>JSON.parse\<close> on the texts the scenarios read: a text that is the serialisation of one
  of the buckets below parses to that bucket. The only other text the scenarios read is
  the malformed document \<open>{\<close>, on which \<open>JSON.parse\<close> throws a \<open>SyntaxError\<close>.
\<close>

definition scenario_documents :: "properties list" where
  "scenario_documents =
     [[],
      [(''a/b.txt'', \<lparr>dateUpdated = 1000, hash = 120\<rparr>)],
      [(''/r/.fs-hash/a.json'', \<lparr>dateUpdated = 1000, hash = 120\<rparr>)],
      [(''/r/.fs-hash/a.json'', \<lparr>dateUpdated = 2000000, hash = 120\<rparr>)]]"

definition scenario_parse :: "js_text \<Rightarrow> string + properties" where
  "scenario_parse str =
     (case find (\<lambda>cacheFile. scenario_stringify cacheFile = str) scenario_documents of
        Some cacheFile \<Rightarrow> Inr cacheFile
      | None \<Rightarrow> Inl ''Unexpected end of JSON input'')"

definition scenario_env :: node_env where
  "scenario_env =
     \<lparr>rootPath = ''/r'', hashCacheDir = ''.fs-hash'',
      path_join = posix_join, path_relative = posix_relative ''/r/website'',
      path_dirname = posix_dirname,
      JSON_parse = scenario_parse, JSON_stringify = scenario_stringify\<rparr>"

text \<open>The errors of \<open>fs\<close> for a path that does not exist and for one that may not be read.\<close>

definition ENOENT :: js_error where
  "ENOENT = JsError (Some ''ENOENT'') ''ENOENT: no such file or directory''"

definition EACCES :: js_error where
  "EACCES = JsError (Some ''EACCES'') ''EACCES: permission denied''"

text \<open>
  The start of the scenarios: nothing loaded, no bucket document on disk, every write
  succeeds, and the tracked file \<open>a/b.txt\<close> holds \<open>x\<close> with timestamp 1000.
\<close>

definition scenario_start :: state where
  "scenario_start =
     \<lparr>localCache = Map.empty,
      files = (\<lambda>_. Inl ENOENT)(''a/b.txt'' := Inr (js_string ''x'')),
      ctimes = (\<lambda>_. Inl ENOENT)(''a/b.txt'' := Inr 1000),
      write_error = (\<lambda>_. None),
      writes = []\<rparr>"

text \<open>The tracked file is seen with the given content and timestamp.\<close>

definition observe :: "string \<Rightarrow> js_text \<Rightarrow> int \<Rightarrow> state \<Rightarrow> state" where
  "observe filePath fileData ctime s =
     s\<lparr>files := (files s)(filePath := Inr fileData), ctimes := (ctimes s)(filePath := Inr ctime)\<rparr>"

text \<open>
  The bucket document of \<open>a/b.txt\<close> after Scenario A, the state after its commit, and
  the state once that document has been loaded into the overlay.
\<close>

definition document_a :: js_text where
  \<open>document_a = js_string ''{"a/b.txt":{"dateUpdated":1000,"hash":120}}''\<close>

definition scenario_committed :: state where
  "scenario_committed =
     scenario_start
       \<lparr>files := (files scenario_start)(''/r/.fs-hash/a.json'' := Inr document_a),
        writes := [(''/r/.fs-hash/a.json'', document_a)]\<rparr>"

definition scenario_loaded :: state where
  "scenario_loaded =
     scenario_committed
       \<lparr>localCache :=
          [''/r/.fs-hash/a.json'' \<mapsto> object_of [(''a/b.txt'', \<lparr>dateUpdated = 1000, hash = 120\<rparr>)]]\<rparr>"

text \<open>
  Two documents for the bucket \<open>/r/.fs-hash.json\<close>, each with an entry under the key
  \<open>/r/.fs-hash/a.json\<close>, and the start of the scenarios with one of them on disk.
\<close>

definition document_same :: js_text where
  \<open>document_same = js_string ''{"/r/.fs-hash/a.json":{"dateUpdated":1000,"hash":120}}''\<close>

definition document_other :: js_text where
  \<open>document_other = js_string ''{"/r/.fs-hash/a.json":{"dateUpdated":2000000,"hash":120}}''\<close>

definition scenario_same :: state where
  "scenario_same =
     scenario_start\<lparr>files := (files scenario_start)(''/r/.fs-hash.json'' := Inr document_same)\<rparr>"

definition scenario_other :: state where
  "scenario_other =
     scenario_start\<lparr>files := (files scenario_start)(''/r/.fs-hash.json'' := Inr document_other)\<rparr>"

definition scenario_other_committed :: state where
  "scenario_other_committed =
     scenario_other
       \<lparr>files := (files scenario_other)(''/r/.fs-hash/a.json'' := Inr document_a),
        writes := [(''/r/.fs-hash/a.json'', document_a)]\<rparr>"

text \<open>
  A tracked file named \<open>__proto__\<close>, with content \<open>x\<close> and timestamp 1000. \<open>path.dirname\<close> of
  that path is \<open>.\<close>, so its bucket document is \<open>/r/.fs-hash/..json\<close>. The states after a
  first and after a second commit of the file.
\<close>

definition scenario_proto :: state where
  "scenario_proto = observe ''__proto__'' (js_string ''x'') 1000 scenario_start"

definition document_empty :: js_text where
  "document_empty = js_string ''{}''"

definition scenario_proto_committed :: state where
  "scenario_proto_committed =
     scenario_proto
       \<lparr>files := (files scenario_proto)(''/r/.fs-hash/..json'' := Inr document_empty),
        writes := [(''/r/.fs-hash/..json'', document_empty)]\<rparr>"

definition scenario_proto_committed_twice :: state where
  "scenario_proto_committed_twice =
     scenario_proto_committed
       \<lparr>localCache :=
          [''/r/.fs-hash/..json'' \<mapsto> \<lparr>own = [], prototype = Some \<lparr>dateUpdated = 1000, hash = 120\<rparr>\<rparr>],
        writes := [(''/r/.fs-hash/..json'', document_empty), (''/r/.fs-hash/..json'', document_empty)]\<rparr>"

section \<open>Properties of the fingerprint\<close>

lemma toInt32_range: "- (2 ^ 31) \<le> toInt32 x \<and> toInt32 x < 2 ^ 31"
proof -
  have "0 \<le> (x + 2 ^ 31) mod (2 ^ 32 :: int)" and "(x + 2 ^ 31) mod (2 ^ 32 :: int) < 2 ^ 32"
    by simp_all
  then show ?thesis
    by (simp add: toInt32_def)
qed

lemma foldl_hash_step_range:
  "- (2 ^ 31) \<le> h \<Longrightarrow> h < 2 ^ 31 \<Longrightarrow>
   - (2 ^ 31) \<le> foldl hash_step h str \<and> foldl hash_step h str < 2 ^ 31"
proof (induction str arbitrary: h)
  case Nil
  then show ?case by simp
next
  case (Cons c str)
  have "- (2 ^ 31) \<le> hash_step h c" and "hash_step h c < 2 ^ 31"
    using toInt32_range [of "(shl h 5 - h) + uint c"] by (simp_all add: hash_step_def)
  then show ?case
    using Cons.IH [of "hash_step h c"] by simp
qed

section \<open>Properties of a bucket\<close>

text \<open>The comparer accepts exactly the entry itself.\<close>

lemma fileInfoComparer_eq: "fileInfoComparer a b \<longleftrightarrow> a = Entry b"
  by (cases a) (auto simp: fileInfoComparer_def dateUpdated_of_def hash_of_def)

lemma fileInfoComparer_or_empty:
  "fileInfoComparer (js_or v Empty_object) b \<longleftrightarrow> v = Entry b"
  by (cases v) (auto simp: fileInfoComparer_eq js_or_def truthy_def)

text \<open>Reading a key right after assigning to it returns the entry, whatever the key.\<close>

lemma get_set_property: "get_property (set_property cacheFile key entry) key = Entry entry"
  by (simp add: get_property_def set_property_def update_conv')


lemma get_property_empty_no_entry: "get_property (object_of []) key \<noteq> Entry entry"
  by (simp add: get_property_def object_of_def inherited_def)

lemma get_property_object_of_single:
  "get_property (object_of [(key, entry)]) key = Entry entry"
  by (simp add: get_property_def object_of_def)

text \<open>
  The own properties after an assignment to a bucket that has none: the property,
  unless the key is \<open>__proto__\<close>.
\<close>

lemma own_set_property_empty:
  "own (set_property (object_of []) key entry) = (if key = ''__proto__'' then [] else [(key, entry)])"
  by (simp add: set_property_def object_of_def)

lemma own_set_property_empty_ordinary:
  "key \<noteq> ''__proto__'' \<Longrightarrow> own (set_property (object_of []) key entry) = [(key, entry)]"
  by (simp add: own_set_property_empty)

text \<open>A key with no own property that \<open>Object.prototype\<close> does not have either is undefined.\<close>

lemma get_property_absent:
  assumes "map_of (own cacheFile) key = None" and "prototype cacheFile = None"
    and "key \<noteq> ''__proto__''" and "key \<notin> set Object_prototype_names"
  shows "get_property cacheFile key = Undefined"
  using assms by (simp add: get_property_def inherited_def)

section \<open>Loading a bucket\<close>

lemma getCacheFile_hit:
  "localCache s (getHashPath E filePath) = Some cacheFile \<Longrightarrow>
   getCacheFile E filePath s = (Inr (InOverlay cacheFile), s)"
  by (simp add: getCacheFile_def)

lemma getCacheFile_InOverlay:
  assumes "getCacheFile E filePath s = (Inr (InOverlay cacheFile), s1)"
  shows "localCache s1 (getHashPath E filePath) = Some cacheFile"
    and "files s1 = files s" and "ctimes s1 = ctimes s"
    and "write_error s1 = write_error s" and "writes s1 = writes s"
  using assms
  by (auto simp: getCacheFile_def Let_def catch_handler_def
           split: option.splits sum.splits if_splits)

lemma getCacheFile_Fresh:
  assumes "getCacheFile E filePath s = (Inr (Fresh cacheFile), s1)"
  shows "cacheFile = object_of []" and "s1 = s"
    and "localCache s (getHashPath E filePath) = None"
    and "getHashPath E filePath \<noteq> []"
  using assms
  by (auto simp: getCacheFile_def Let_def catch_handler_def
           split: option.splits sum.splits if_splits)

lemma getCacheFile_frame:
  assumes "getCacheFile E filePath s = (r, s1)"
  shows "files s1 = files s" and "ctimes s1 = ctimes s"
    and "write_error s1 = write_error s" and "writes s1 = writes s"
    and "localCache s k = Some cacheFile \<Longrightarrow> localCache s1 k = Some cacheFile"
  using assms
  by (auto simp: getCacheFile_def Let_def catch_handler_def
           split: option.splits sum.splits if_splits)

lemma getCacheFile_overlay_growth:
  assumes "getCacheFile E filePath s = (r, s1)"
    and "localCache s1 k = Some cacheFile" and "localCache s k = None"
  shows "k = getHashPath E filePath"
    and "\<exists>data parsed. files s k = Inr data \<and> JSON_parse E data = Inr parsed
           \<and> cacheFile = object_of parsed"
    and "r = Inr (InOverlay cacheFile)"
  using assms
  by (auto simp: getCacheFile_def Let_def catch_handler_def readFile_def
           split: option.splits sum.splits if_splits)

lemma getCacheFile_missing_document:
  assumes "localCache s (getHashPath E filePath) = None"
    and "getHashPath E filePath \<noteq> []"
    and "files s (getHashPath E filePath) = Inl err" and "code err = Some ''ENOENT''"
  shows "getCacheFile E filePath s = (Inr (Fresh (object_of [])), s)"
  using assms by (simp add: getCacheFile_def readFile_def catch_handler_def)

lemma getCacheEntry_frame:
  assumes "getCacheEntry E filePath s = (r, s1)"
  shows "files s1 = files s" and "ctimes s1 = ctimes s"
    and "write_error s1 = write_error s" and "writes s1 = writes s"
    and "localCache s k = Some cacheFile \<Longrightarrow> localCache s1 k = Some cacheFile"
  using assms getCacheFile_frame [of E filePath s]
  by (auto simp: getCacheEntry_def split: prod.splits sum.splits)

lemma getCacheEntry_overlay_growth:
  assumes "getCacheEntry E filePath s = (r, s1)"
    and "localCache s1 k = Some bucket" and "localCache s k = None"
  shows "k = getHashPath E filePath
       \<and> (\<exists>data parsed. files s k = Inr data \<and> JSON_parse E data = Inr parsed
             \<and> bucket = object_of parsed)"
proof (cases "getCacheFile E filePath s")
  case (Pair r0 s0)
  with assms(1) have "s1 = s0"
    by (auto simp: getCacheEntry_def split: sum.splits)
  with Pair assms(2,3) show ?thesis
    using getCacheFile_overlay_growth [of E filePath s r0 s0 k bucket] by blast
qed

lemma getCached_overlay_growth:
  assumes "getCached E filePath s = (r, s1)"
    and "localCache s1 k = Some bucket" and "localCache s k = None"
  shows "k = getHashPath E (getHashPath E filePath)
       \<and> (\<exists>data parsed. files s k = Inr data \<and> JSON_parse E data = Inr parsed
             \<and> bucket = object_of parsed)"
proof (cases "getCacheEntry E (getHashPath E filePath) s")
  case (Pair r0 s0)
  have "s1 = s \<or> s1 = s0"
    using assms(1) Pair by (auto simp: getCached_def split: sum.splits)
  with assms(2,3) have "s1 = s0" by auto
  with Pair assms(2,3) show ?thesis
    using getCacheEntry_overlay_growth [of E "getHashPath E filePath" s r0 s0 k bucket] by blast
qed

text \<open>
  Where the loaded bucket has no own property for the path, has \<open>Object.prototype\<close> as
  its prototype, and the path is not the name of a member of \<open>Object.prototype\<close>,
  reading the entry gives the zero entry.
\<close>

lemma getCacheEntry_absent_ordinary:
  assumes "getCacheFile E filePath s = (Inr cacheFile, s1)"
    and "map_of (own (contents cacheFile)) filePath = None"
    and "prototype (contents cacheFile) = None"
    and "filePath \<noteq> ''__proto__''" and "filePath \<notin> set Object_prototype_names"
  shows "getCacheEntry E filePath s = (Inr (Entry \<lparr>dateUpdated = 0, hash = 0\<rparr>), s1)"
  using assms get_property_absent [of "contents cacheFile" filePath]
  by (simp add: getCacheEntry_def js_or_def truthy_def)

section \<open>Committing an entry\<close>

lemma setCacheEntry_result:
  "setCacheEntry E d filePath fileData s = (Inr cacheEntry, s1) \<Longrightarrow>
   cacheEntry = \<lparr>dateUpdated = d, hash = getHash fileData\<rparr>"
  by (auto simp: setCacheEntry_def Let_def split: prod.splits sum.splits if_splits)

lemma writeFilep_ok:
  "writeFilep target str s = (Inr u, s1) \<Longrightarrow>
   target \<noteq> [] \<and> files s1 target = Inr str \<and> localCache s1 = localCache s"
  by (auto simp: writeFilep_def Let_def split: if_splits option.splits)

text \<open>
  After a commit that succeeded, either the bucket is in the overlay and reading the
  path in it gives the committed entry, or the bucket is not in the overlay and its
  document holds the own properties of \<open>{}\<close> after the assignment.
\<close>

lemma setCacheEntry_stored:
  assumes "setCacheEntry E d filePath fileData s = (Inr cacheEntry, s1)"
  shows "(\<exists>cacheFile. localCache s1 (getHashPath E filePath) = Some cacheFile
            \<and> get_property cacheFile filePath = Entry \<lparr>dateUpdated = d, hash = getHash fileData\<rparr>)
       \<or> (localCache s1 (getHashPath E filePath) = None \<and> getHashPath E filePath \<noteq> []
            \<and> files s1 (getHashPath E filePath)
                = Inr (JSON_stringify E
                         (own (set_property (object_of []) filePath
                                 \<lparr>dateUpdated = d, hash = getHash fileData\<rparr>))))"
proof (cases "getCacheFile E filePath s")
  case (Pair r s0)
  show ?thesis
  proof (cases r)
    case (Inl err)
    with Pair assms show ?thesis by (simp add: setCacheEntry_def)
  next
    case (Inr ref)
    show ?thesis
    proof (cases ref)
      case (InOverlay cacheFile)
      with Pair Inr have hit: "localCache s0 (getHashPath E filePath) = Some cacheFile"
        using getCacheFile_InOverlay(1) by simp
      from assms Pair Inr InOverlay hit show ?thesis
        by (auto simp: setCacheEntry_def Let_def setCacheFile_def fileInfoComparer_or_empty
                       get_set_property
                 dest!: writeFilep_ok split: prod.splits sum.splits if_splits)
    next
      case (Fresh cacheFile)
      with Pair Inr have fr: "cacheFile = object_of []" "s0 = s"
          "localCache s (getHashPath E filePath) = None"
        using getCacheFile_Fresh by simp_all
      from assms Pair Inr Fresh fr show ?thesis
        by (auto simp: setCacheEntry_def Let_def setCacheFile_def fileInfoComparer_or_empty
                       get_property_empty_no_entry
                 dest!: writeFilep_ok split: prod.splits sum.splits if_splits)
    qed
  qed
qed

text \<open>The commit skips the assignment and the write exactly when it finds the entry.\<close>

lemma setCacheEntry_skip:
  assumes "getCacheFile E filePath s = (Inr cacheFile, s0)"
    and "get_property (contents cacheFile) filePath = Entry \<lparr>dateUpdated = d, hash = getHash fileData\<rparr>"
  shows "setCacheEntry E d filePath fileData s
           = (Inr \<lparr>dateUpdated = d, hash = getHash fileData\<rparr>, s0)"
  using assms by (simp add: setCacheEntry_def fileInfoComparer_or_empty)

text \<open>
  For every path other than \<open>__proto__\<close>: the entry is read back after a commit, and a
  second commit of the same content and timestamp writes nothing. Both under the
  premise that the one-entry document parses back to the properties it was written
  from.
\<close>

lemma commit_then_read_entry_ordinary:
  assumes "setCacheEntry E d filePath fileData s = (Inr cacheEntry, s1)"
    and "filePath \<noteq> ''__proto__''"
    and "JSON_parse E (JSON_stringify E [(filePath, \<lparr>dateUpdated = d, hash = getHash fileData\<rparr>)])
           = Inr [(filePath, \<lparr>dateUpdated = d, hash = getHash fileData\<rparr>)]"
  shows "fst (getCacheEntry E filePath s1) = Inr (Entry cacheEntry)"
  using setCacheEntry_stored [OF assms(1)] setCacheEntry_result [OF assms(1)] assms(2,3)
  by (auto simp: getCacheEntry_def getCacheFile_def readFile_def Let_def
                 own_set_property_empty_ordinary get_property_object_of_single
                 js_or_def truthy_def)

lemma commit_twice_ordinary:
  assumes "setCacheEntry E d filePath fileData s = (Inr cacheEntry, s1)"
    and "filePath \<noteq> ''__proto__''"
    and "JSON_parse E (JSON_stringify E [(filePath, \<lparr>dateUpdated = d, hash = getHash fileData\<rparr>)])
           = Inr [(filePath, \<lparr>dateUpdated = d, hash = getHash fileData\<rparr>)]"
  shows "\<exists>s2. setCacheEntry E d filePath fileData s1 = (Inr cacheEntry, s2)
           \<and> writes s2 = writes s1 \<and> files s2 = files s1
           \<and> (\<forall>k cacheFile. localCache s1 k = Some cacheFile \<longrightarrow> localCache s2 k = Some cacheFile)"
  using setCacheEntry_stored [OF assms(1)] setCacheEntry_result [OF assms(1)] assms(2,3)
  by (auto simp: setCacheEntry_def Let_def getCacheFile_def readFile_def
                 own_set_property_empty_ordinary fileInfoComparer_or_empty
                 get_property_object_of_single)

lemma setCacheEntry_overlay_growth:
  assumes "setCacheEntry E d filePath fileData s = (r, s2)"
    and "localCache s2 k = Some bucket" and "localCache s k = None"
  shows "k = getHashPath E filePath
       \<and> (\<exists>data parsed. files s k = Inr data \<and> JSON_parse E data = Inr parsed)"
proof (cases "getCacheFile E filePath s")
  case (Pair r0 s0)
  have step: "localCache s2 k = localCache s0 k
        \<or> (k = getHashPath E filePath \<and> (\<exists>cf. r0 = Inr (InOverlay cf)))"
    using assms(1) Pair
    by (auto simp: setCacheEntry_def Let_def setCacheFile_def writeFilep_def
             split: sum.splits if_splits bucket_ref.splits option.splits)
  show ?thesis
  proof (cases "localCache s0 k")
    case None
    with step assms(2) obtain cf where k: "k = getHashPath E filePath" and r0: "r0 = Inr (InOverlay cf)"
      by auto
    from Pair r0 k have "localCache s0 k = Some cf"
      using getCacheFile_InOverlay(1) by simp
    with None show ?thesis by simp
  next
    case (Some cf)
    from getCacheFile_overlay_growth [OF Pair Some assms(3)] show ?thesis by blast
  qed
qed

lemma updateCache_overlay_growth:
  assumes "updateCache E filePath s = (r, s2)"
    and "localCache s2 k = Some bucket" and "localCache s k = None"
  shows "k = getHashPath E filePath
       \<and> (\<exists>data parsed. files s k = Inr data \<and> JSON_parse E data = Inr parsed)"
proof -
  have "s2 = s \<or> (\<exists>d fileData. setCacheEntry E d filePath fileData s = (r, s2))"
    using assms(1) by (auto simp: updateCache_def split: sum.splits)
  with assms(2,3) obtain d fileData where "setCacheEntry E d filePath fileData s = (r, s2)"
    by auto
  from setCacheEntry_overlay_growth [OF this assms(2,3)] show ?thesis .
qed

lemma setCacheEntry_creates_bucket:
  assumes "localCache s (getHashPath E filePath) = None"
    and "files s (getHashPath E filePath) = Inl err" and "code err = Some ''ENOENT''"
    and "setCacheEntry E d filePath fileData s = (Inr cacheEntry, s2)"
  shows "localCache s2 = localCache s
       \<and> files s2 (getHashPath E filePath)
           = Inr (JSON_stringify E (own (set_property (object_of []) filePath cacheEntry)))
       \<and> writes s2 = writes s @ [(getHashPath E filePath,
                                   JSON_stringify E (own (set_property (object_of []) filePath cacheEntry)))]"
  using assms
  by (auto simp: setCacheEntry_def Let_def setCacheFile_def writeFilep_def getCacheFile_def
                 readFile_def catch_handler_def fileInfoComparer_or_empty
                 get_property_empty_no_entry
           split: sum.splits if_splits option.splits)

section \<open>The verdict of the query\<close>

text \<open>
  What \<open>getCached\<close> computes when the value it reads is an entry: the two disjuncts of
  the specification's formula, on the entry that \<open>getCacheEntry\<close> returns for \<open>hashPath\<close>.
\<close>

lemma getCached_verdict:
  assumes "stat s filePath = Inr t" and "readFile s filePath = Inr fileData"
    and "getCacheEntry E (getHashPath E filePath) s = (Inr (Entry cacheEntry), s1)"
  shows "getCached E filePath s =
           (Inr \<lparr>fileInfo_filePath = filePath, fileInfo_fileData = fileData,
                 fileInfo_dateUpdated = t,
                 fileInfo_changed = (getHash fileData \<noteq> hash cacheEntry
                                     \<or> t - dateUpdated cacheEntry > 120000)\<rparr>, s1)"
proof -
  have "isNewer t (dateUpdated cacheEntry) \<longleftrightarrow> t - dateUpdated cacheEntry > 120000"
    by (auto simp: isNewer_def gracePeriodMilliseconds_def)
  with assms show ?thesis
    by (auto simp: getCached_def hash_of_def dateUpdated_of_def)
qed

section \<open>The scenarios, step by step\<close>

lemmas path_defs = getHashPath_def scenario_env_def posix_join_def posix_relative_def
  posix_dirname_def posix_resolve_def posix_normalize_def isAbsolute_def

lemmas json_defs = scenario_stringify_def scenario_parse_def scenario_documents_def
  entry_text_def number_text_def js_string_def

lemmas op_defs = updateCache_def setCacheEntry_def getCacheFile_def getCacheEntry_def
  getCached_def setCacheFile_def writeFilep_def stat_def readFile_def catch_handler_def
  fileInfoComparer_def isNewer_def gracePeriodMilliseconds_def new_Error_def ENOENT_def
  get_property_def set_property_def inherited_def Object_prototype_names_def truthy_def
  js_or_def dateUpdated_of_def hash_of_def object_of_def Let_def

text \<open>The bucket document of \<open>a/b.txt\<close>, and the bucket document of that document's path.\<close>

lemma hashPath_a: "getHashPath scenario_env ''a/b.txt'' = ''/r/.fs-hash/a.json''"
  by (simp add: path_defs)

lemma hashPath_hashPath_a: "getHashPath scenario_env ''/r/.fs-hash/a.json'' = ''/r/.fs-hash.json''"
  by (simp add: path_defs)

lemma scenario_env_JSON:
  "JSON_parse scenario_env = scenario_parse" "JSON_stringify scenario_env = scenario_stringify"
  by (simp_all add: scenario_env_def)

lemma stringify_a:
  "scenario_stringify [(''a/b.txt'', \<lparr>dateUpdated = 1000, hash = 120\<rparr>)] = document_a"
  by (simp add: json_defs document_a_def)

lemma parse_a:
  "scenario_parse document_a = Inr [(''a/b.txt'', \<lparr>dateUpdated = 1000, hash = 120\<rparr>)]"
  by (simp add: json_defs document_a_def)

lemma parse_same:
  "scenario_parse document_same = Inr [(''/r/.fs-hash/a.json'', \<lparr>dateUpdated = 1000, hash = 120\<rparr>)]"
  by (simp add: json_defs document_same_def)

lemma parse_other:
  "scenario_parse document_other
     = Inr [(''/r/.fs-hash/a.json'', \<lparr>dateUpdated = 2000000, hash = 120\<rparr>)]"
  by (simp add: json_defs document_other_def)

lemma getHash_x: "getHash (js_string ''x'') = 120"
  by (simp add: getHash_def js_string_def hash_step_def shl_def toInt32_def)

lemma document_a_nonempty: "document_a \<noteq> []"
  by (simp add: document_a_def js_string_def)

text \<open>Scenario A: the commit of \<open>a/b.txt\<close> with content \<open>x\<close> at time 1000.\<close>

lemma scenario_A:
  "updateCache scenario_env ''a/b.txt'' scenario_start
     = (Inr \<lparr>dateUpdated = 1000, hash = 120\<rparr>, scenario_committed)"
  by (simp add: op_defs hashPath_a scenario_env_JSON stringify_a getHash_x document_a_nonempty
                scenario_start_def scenario_committed_def)

lemma scenario_A_set:
  "setCacheEntry scenario_env 1000 ''a/b.txt'' (js_string ''x'') scenario_start
     = (Inr \<lparr>dateUpdated = 1000, hash = 120\<rparr>, scenario_committed)"
  by (simp add: op_defs hashPath_a scenario_env_JSON stringify_a getHash_x document_a_nonempty
                scenario_start_def scenario_committed_def)

lemma load_start:
  "getCacheFile scenario_env ''a/b.txt'' scenario_start = (Inr (Fresh (object_of [])), scenario_start)"
  by (simp add: op_defs hashPath_a scenario_start_def)

lemma load_committed:
  "getCacheFile scenario_env ''a/b.txt'' scenario_committed
     = (Inr (InOverlay (object_of [(''a/b.txt'', \<lparr>dateUpdated = 1000, hash = 120\<rparr>)])),
        scenario_loaded)"
  by (simp add: op_defs hashPath_a scenario_env_JSON parse_a
                scenario_start_def scenario_committed_def scenario_loaded_def)

lemma commit_again:
  "setCacheEntry scenario_env 1000 ''a/b.txt'' (js_string ''x'') scenario_committed
     = (Inr \<lparr>dateUpdated = 1000, hash = 120\<rparr>, scenario_loaded)"
  by (rule setCacheEntry_skip [where d = 1000 and fileData = "js_string ''x''", unfolded getHash_x,
          OF load_committed])
     (simp add: get_property_object_of_single)

lemma load_loaded:
  "getCacheFile scenario_env ''a/b.txt'' scenario_loaded
     = (Inr (InOverlay (object_of [(''a/b.txt'', \<lparr>dateUpdated = 1000, hash = 120\<rparr>)])),
        scenario_loaded)"
  by (rule getCacheFile_hit) (simp add: hashPath_a scenario_loaded_def)

lemma commit_loaded:
  "setCacheEntry scenario_env 1000 ''a/b.txt'' (js_string ''x'') scenario_loaded
     = (Inr \<lparr>dateUpdated = 1000, hash = 120\<rparr>, scenario_loaded)"
  by (rule setCacheEntry_skip [where d = 1000 and fileData = "js_string ''x''", unfolded getHash_x,
          OF load_loaded])
     (simp add: get_property_object_of_single)

lemma stored_committed:
  "fst (getCacheEntry scenario_env ''a/b.txt'' scenario_committed)
     = Inr (Entry \<lparr>dateUpdated = 1000, hash = 120\<rparr>)"
  by (simp add: getCacheEntry_def load_committed get_property_object_of_single js_or_def
                truthy_def)

lemma observed:
  "stat (observe ''a/b.txt'' fileData t s) ''a/b.txt'' = Inr t"
  "readFile (observe ''a/b.txt'' fileData t s) ''a/b.txt'' = Inr fileData"
  by (simp_all add: stat_def readFile_def observe_def)

text \<open>
  The query after Scenario A. \<open>getCached\<close> asks \<open>getCacheEntry\<close> for \<open>/r/.fs-hash/a.json\<close>;
  the bucket of that path is \<open>/r/.fs-hash.json\<close>, which does not exist, so the entry is
  the zero entry, whatever the time of the observation.
\<close>

lemma consulted_committed:
  "getCacheEntry scenario_env ''/r/.fs-hash/a.json'' (observe ''a/b.txt'' (js_string ''x'') t scenario_committed)
     = (Inr (Entry \<lparr>dateUpdated = 0, hash = 0\<rparr>), observe ''a/b.txt'' (js_string ''x'') t scenario_committed)"
  by (simp add: op_defs hashPath_hashPath_a observe_def scenario_committed_def scenario_start_def)

lemma query_committed:
  "getCached scenario_env ''a/b.txt'' (observe ''a/b.txt'' (js_string ''x'') t scenario_committed)
     = (Inr \<lparr>fileInfo_filePath = ''a/b.txt'', fileInfo_fileData = js_string ''x'',
             fileInfo_dateUpdated = t, fileInfo_changed = True\<rparr>,
        observe ''a/b.txt'' (js_string ''x'') t scenario_committed)"
  by (simp add: getCached_def hashPath_a consulted_committed observed getHash_x
                hash_of_def dateUpdated_of_def)

text \<open>The same query once the bucket of \<open>a/b.txt\<close> is in the overlay.\<close>

lemma consulted_loaded:
  "getCacheEntry scenario_env ''/r/.fs-hash/a.json'' (observe ''a/b.txt'' (js_string ''x'') t scenario_loaded)
     = (Inr (Entry \<lparr>dateUpdated = 0, hash = 0\<rparr>), observe ''a/b.txt'' (js_string ''x'') t scenario_loaded)"
  by (simp add: op_defs hashPath_hashPath_a observe_def scenario_loaded_def scenario_committed_def
                scenario_start_def)

lemma query_loaded:
  "getCached scenario_env ''a/b.txt'' (observe ''a/b.txt'' (js_string ''x'') t scenario_loaded)
     = (Inr \<lparr>fileInfo_filePath = ''a/b.txt'', fileInfo_fileData = js_string ''x'',
             fileInfo_dateUpdated = t, fileInfo_changed = True\<rparr>,
        observe ''a/b.txt'' (js_string ''x'') t scenario_loaded)"
  by (simp add: getCached_def hashPath_a consulted_loaded observed getHash_x
                hash_of_def dateUpdated_of_def)

lemma consulted_same:
  "fst (getCacheEntry scenario_env ''/r/.fs-hash/a.json'' (observe ''a/b.txt'' (js_string ''x'') t scenario_same))
     = Inr (Entry \<lparr>dateUpdated = 1000, hash = 120\<rparr>)"
  by (simp add: op_defs hashPath_hashPath_a observe_def scenario_same_def scenario_start_def
                scenario_env_JSON parse_same)

lemma update_again:
  "updateCache scenario_env ''a/b.txt'' scenario_committed
     = (Inr \<lparr>dateUpdated = 1000, hash = 120\<rparr>, scenario_loaded)"
proof -
  have "stat scenario_committed ''a/b.txt'' = Inr 1000"
      and "readFile scenario_committed ''a/b.txt'' = Inr (js_string ''x'')"
    by (simp_all add: stat_def readFile_def scenario_committed_def scenario_start_def)
  then show ?thesis
    by (simp add: updateCache_def commit_again)
qed

lemma query_same_loads:
  "localCache (observe ''a/b.txt'' (js_string ''x'') t scenario_same) ''/r/.fs-hash.json'' = None"
  "localCache (snd (getCached scenario_env ''a/b.txt'' (observe ''a/b.txt'' (js_string ''x'') t scenario_same)))
     ''/r/.fs-hash.json''
     = Some (object_of [(''/r/.fs-hash/a.json'', \<lparr>dateUpdated = 1000, hash = 120\<rparr>)])"
  by (simp_all add: op_defs hashPath_a hashPath_hashPath_a observe_def scenario_same_def
                    scenario_start_def scenario_env_JSON parse_same)

lemma commit_other:
  "updateCache scenario_env ''a/b.txt'' scenario_other
     = (Inr \<lparr>dateUpdated = 1000, hash = 120\<rparr>, scenario_other_committed)"
  by (simp add: op_defs hashPath_a scenario_env_JSON stringify_a getHash_x document_a_nonempty
                scenario_start_def scenario_other_def scenario_other_committed_def)

lemma stored_other:
  "fst (getCacheEntry scenario_env ''a/b.txt'' scenario_other_committed)
     = Inr (Entry \<lparr>dateUpdated = 1000, hash = 120\<rparr>)"
  by (simp add: op_defs hashPath_a scenario_env_JSON parse_a
                scenario_start_def scenario_other_def scenario_other_committed_def)

lemma consulted_other:
  "fst (getCacheEntry scenario_env ''/r/.fs-hash/a.json''
          (observe ''a/b.txt'' (js_string ''x'') t scenario_other_committed))
     = Inr (Entry \<lparr>dateUpdated = 2000000, hash = 120\<rparr>)"
  by (simp add: op_defs hashPath_hashPath_a observe_def scenario_env_JSON parse_other
                scenario_start_def scenario_other_def scenario_other_committed_def)

text \<open>
  The paths \<open>__proto__\<close> and \<open>constructor\<close> share the bucket document \<open>/r/.fs-hash/..json\<close>;
  \<open>JSON.stringify\<close> of a bucket without own properties is \<open>{}\<close>, which parses to such a
  bucket.
\<close>

lemma hashPath_proto: "getHashPath scenario_env ''__proto__'' = ''/r/.fs-hash/..json''"
  by (simp add: path_defs)


lemma stringify_empty: "scenario_stringify [] = document_empty"
  by (simp add: json_defs document_empty_def)

lemma parse_empty: "scenario_parse document_empty = Inr []"
  by (simp add: json_defs document_empty_def)

lemma document_empty_nonempty: "document_empty \<noteq> []"
  by (simp add: document_empty_def js_string_def)

lemma observed_proto:
  "stat scenario_proto ''__proto__'' = Inr 1000"
  "readFile scenario_proto ''__proto__'' = Inr (js_string ''x'')"
  "stat scenario_proto_committed ''__proto__'' = Inr 1000"
  "readFile scenario_proto_committed ''__proto__'' = Inr (js_string ''x'')"
  by (simp_all add: stat_def readFile_def observe_def scenario_proto_def
                    scenario_proto_committed_def)

text \<open>
  The first commit of \<open>__proto__\<close>: the bucket is a fresh \<open>{}\<close>, reading the key in it gives
  \<open>Object.prototype\<close>, the assignment replaces the prototype, and the document written is
  \<open>{}\<close>.
\<close>

lemma commit_proto:
  "setCacheEntry scenario_env 1000 ''__proto__'' (js_string ''x'') scenario_proto
     = (Inr \<lparr>dateUpdated = 1000, hash = 120\<rparr>, scenario_proto_committed)"
  by (simp add: op_defs hashPath_proto scenario_env_JSON stringify_empty getHash_x
                document_empty_nonempty observe_def scenario_start_def scenario_proto_def
                scenario_proto_committed_def)

text \<open>
  The second commit: the document \<open>{}\<close> is loaded into the overlay, the key again reads as
  \<open>Object.prototype\<close>, the prototype of the overlay's bucket is replaced, and \<open>{}\<close> is
  written a second time.
\<close>

lemma commit_proto_again:
  "setCacheEntry scenario_env 1000 ''__proto__'' (js_string ''x'') scenario_proto_committed
     = (Inr \<lparr>dateUpdated = 1000, hash = 120\<rparr>, scenario_proto_committed_twice)"
  by (simp add: op_defs hashPath_proto scenario_env_JSON stringify_empty parse_empty getHash_x
                document_empty_nonempty observe_def scenario_start_def scenario_proto_def
                scenario_proto_committed_def scenario_proto_committed_twice_def)

lemma update_proto:
  "updateCache scenario_env ''__proto__'' scenario_proto
     = (Inr \<lparr>dateUpdated = 1000, hash = 120\<rparr>, scenario_proto_committed)"
  by (simp add: updateCache_def observed_proto commit_proto)

lemma update_proto_again:
  "updateCache scenario_env ''__proto__'' scenario_proto_committed
     = (Inr \<lparr>dateUpdated = 1000, hash = 120\<rparr>, scenario_proto_committed_twice)"
  by (simp add: updateCache_def observed_proto commit_proto_again)

lemma read_proto:
  "fst (getCacheEntry scenario_env ''__proto__'' scenario_proto_committed) = Inr Object_prototype"
  by (simp add: op_defs hashPath_proto scenario_env_JSON parse_empty observe_def
                scenario_start_def scenario_proto_def scenario_proto_committed_def)



section \<open>The claims\<close>

text \<open>
  C1. For a path with a recorded entry, the verdict of the query is said to be
  \<open>currentHash \<noteq> stored.hash \<or> currentDateUpdated - stored.dateUpdated > 120000\<close>, where
  \<open>stored\<close> is the entry recorded for that same path. The code does not do this:
  \<open>getCached\<close> hands \<open>hashPath\<close>, not \<open>filePath\<close>, to \<open>getCacheEntry\<close>, which then loads the
  bucket of \<open>hashPath\<close> and looks up the key \<open>hashPath\<close> in it (\<open>getCached_verdict\<close>), while
  \<open>setCacheEntry\<close> records the entry under the key \<open>filePath\<close> in the bucket of \<open>filePath\<close>.
  Scenario A followed by a query on the unchanged file: the entry recorded for
  \<open>a/b.txt\<close> is \<open>{dateUpdated: 1000, hash: 120}\<close>, the formula of the claim gives false,
  and the query reports \<open>changed = true\<close>.
\<close>

theorem unchanged_file_reported_changed:
  "fst (updateCache scenario_env ''a/b.txt'' scenario_start) = Inr \<lparr>dateUpdated = 1000, hash = 120\<rparr>
   \<and> snd (updateCache scenario_env ''a/b.txt'' scenario_start) = scenario_committed
   \<and> fst (getCacheEntry scenario_env ''a/b.txt'' scenario_committed)
       = Inr (Entry \<lparr>dateUpdated = 1000, hash = 120\<rparr>)
   \<and> fst (getCached scenario_env ''a/b.txt''
            (observe ''a/b.txt'' (js_string ''x'') 1000 scenario_committed))
       = Inr \<lparr>fileInfo_filePath = ''a/b.txt'', fileInfo_fileData = js_string ''x'',
               fileInfo_dateUpdated = 1000, fileInfo_changed = True\<rparr>
   \<and> (getHash (js_string ''x'') \<noteq> 120 \<or> 1000 - 1000 > gracePeriodMilliseconds) = False"
  by (simp add: scenario_A stored_committed query_committed getHash_x gracePeriodMilliseconds_def)

text \<open>The verdict of that run, read off the theorem.\<close>

theorem unchanged_file_reported_changed_witness:
  "map_sum id fileInfo_changed
     (fst (getCached scenario_env ''a/b.txt''
             (observe ''a/b.txt'' (js_string ''x'') 1000 scenario_committed)))
     = Inr True"
  using unchanged_file_reported_changed by simp

text \<open>
  C2, as stated, fails. Scenario D: \<open>a/b.txt\<close> is committed with content \<open>x\<close> at time 1000
  and later seen with the same content at time 1050000; the claim expects
  \<open>changed = false\<close>. The query reports \<open>changed = true\<close>. The second conjunct below is
  the reason that does not depend on which entry the query consults: 1050000 is
  1049000 ms after 1000, far beyond the grace period of 120000 ms, so \<open>isNewer\<close> holds
  against the committed timestamp as well.
\<close>

theorem scenario_D_reported_changed:
  "fst (updateCache scenario_env ''a/b.txt'' scenario_start) = Inr \<lparr>dateUpdated = 1000, hash = 120\<rparr>
   \<and> snd (updateCache scenario_env ''a/b.txt'' scenario_start) = scenario_committed
   \<and> fst (getCached scenario_env ''a/b.txt''
            (observe ''a/b.txt'' (js_string ''x'') 1050000 scenario_committed))
       = Inr \<lparr>fileInfo_filePath = ''a/b.txt'', fileInfo_fileData = js_string ''x'',
               fileInfo_dateUpdated = 1050000, fileInfo_changed = True\<rparr>
   \<and> isNewer 1050000 1000"
  by (simp add: scenario_A query_committed isNewer_def gracePeriodMilliseconds_def)

text \<open>
  C2, amended. When the entry the query reads has timestamp 1000 and the fingerprint of
  the content now seen, the verdict for an observation at time \<open>t\<close> is
  \<open>t - 1000 > 120000\<close>: true at 1050000, and false only up to time 121000.
\<close>

theorem same_hash_verdict_after_1000:
  assumes "stat s filePath = Inr t" and "readFile s filePath = Inr fileData"
    and "getCacheEntry E (getHashPath E filePath) s = (Inr (Entry cacheEntry), s1)"
    and "dateUpdated cacheEntry = 1000" and "hash cacheEntry = getHash fileData"
  shows "getCached E filePath s =
           (Inr \<lparr>fileInfo_filePath = filePath, fileInfo_fileData = fileData,
                 fileInfo_dateUpdated = t, fileInfo_changed = (t - 1000 > 120000)\<rparr>, s1)"
  using getCached_verdict [OF assms(1,2,3)] assms(4,5) by simp

text \<open>
  At time 1050000, in a state where the entry the query reads is
  \<open>{dateUpdated: 1000, hash: 120}\<close>: the verdict is true.
\<close>

theorem same_hash_verdict_after_1000_witness:
  "fst (getCacheEntry scenario_env (getHashPath scenario_env ''a/b.txt'')
          (observe ''a/b.txt'' (js_string ''x'') 1050000 scenario_same))
     = Inr (Entry \<lparr>dateUpdated = 1000, hash = getHash (js_string ''x'')\<rparr>)
   \<and> fst (getCached scenario_env ''a/b.txt'' (observe ''a/b.txt'' (js_string ''x'') 1050000 scenario_same))
       = Inr \<lparr>fileInfo_filePath = ''a/b.txt'', fileInfo_fileData = js_string ''x'',
               fileInfo_dateUpdated = 1050000, fileInfo_changed = True\<rparr>"
proof -
  let ?s = "observe ''a/b.txt'' (js_string ''x'') 1050000 scenario_same"
  obtain s1 where c: "getCacheEntry scenario_env (getHashPath scenario_env ''a/b.txt'') ?s
                        = (Inr (Entry \<lparr>dateUpdated = 1000, hash = 120\<rparr>), s1)"
    using consulted_same [of 1050000]
    by (cases "getCacheEntry scenario_env (getHashPath scenario_env ''a/b.txt'') ?s")
      (simp add: hashPath_a)
  from same_hash_verdict_after_1000 [OF observed(1) observed(2) c] c show ?thesis
    by (simp add: getHash_x)
qed

text \<open>
  C3. Round trip: a commit followed by a read of the entry of the same path is said to
  return the committed timestamp and fingerprint, for every path. For every path other
  than \<open>__proto__\<close> it does (\<open>commit_then_read_entry_ordinary\<close>). For the tracked file
  \<open>__proto__\<close> it does not: the bucket is a fresh \<open>{}\<close>; \<open>cacheFile[filePath] = cacheEntry\<close> runs
  the setter of \<open>__proto__\<close>, which makes the entry the prototype of the bucket and
  creates no property; the document written is \<open>{}\<close>; the read that follows loads that
  document and \<open>cacheFile[filePath]\<close> evaluates to \<open>Object.prototype\<close>, which is truthy and
  is returned. It has neither field of the committed entry \<open>{dateUpdated: 1000, hash: 120}\<close>.
\<close>

theorem proto_commit_not_read_back:
  "updateCache scenario_env ''__proto__'' scenario_proto
     = (Inr \<lparr>dateUpdated = 1000, hash = 120\<rparr>, scenario_proto_committed)
   \<and> setCacheEntry scenario_env 1000 ''__proto__'' (js_string ''x'') scenario_proto
     = (Inr \<lparr>dateUpdated = 1000, hash = 120\<rparr>, scenario_proto_committed)
   \<and> files scenario_proto_committed ''/r/.fs-hash/..json'' = Inr (js_string ''{}'')
   \<and> fst (getCacheEntry scenario_env ''__proto__'' scenario_proto_committed) = Inr Object_prototype
   \<and> dateUpdated_of Object_prototype = None \<and> hash_of Object_prototype = None"
proof -
  have "files scenario_proto_committed ''/r/.fs-hash/..json'' = Inr (js_string ''{}'')"
    by (simp add: scenario_proto_committed_def document_empty_def)
  moreover have "dateUpdated_of Object_prototype = None \<and> hash_of Object_prototype = None"
    by (simp add: dateUpdated_of_def hash_of_def)
  ultimately show ?thesis
    using update_proto commit_proto read_proto by blast
qed

text \<open>The value read back in that run, read off the theorem.\<close>

theorem proto_commit_not_read_back_witness:
  "fst (getCacheEntry scenario_env ''__proto__''
          (snd (updateCache scenario_env ''__proto__'' scenario_proto)))
     = Inr Object_prototype"
  using proto_commit_not_read_back by simp

text \<open>
  C4. Scenario C: \<open>a/b.txt\<close> is committed with content \<open>x\<close> at time 1000 and later seen, with
  a fingerprint equal to the stored one, at time 1121000; the claim expects
  \<open>changed = true\<close>. The query does not read the entry of \<open>a/b.txt\<close> (see C1) but the entry
  under the key \<open>/r/.fs-hash/a.json\<close> of the bucket \<open>/r/.fs-hash.json\<close>. Here that bucket
  holds \<open>{dateUpdated: 2000000, hash: 120}\<close> under that key: the entry recorded for
  \<open>a/b.txt\<close> is \<open>{dateUpdated: 1000, hash: 120}\<close>, the fingerprints are equal, the
  timestamp is 1120000 ms later, and the query reports \<open>changed = false\<close>. With no such
  bucket on disk the same query reports true (last conjunct), the entry it reads
  being the zero entry.
\<close>

theorem scenario_C_reported_unchanged:
  "fst (updateCache scenario_env ''a/b.txt'' scenario_other) = Inr \<lparr>dateUpdated = 1000, hash = 120\<rparr>
   \<and> snd (updateCache scenario_env ''a/b.txt'' scenario_other) = scenario_other_committed
   \<and> fst (getCacheEntry scenario_env ''a/b.txt'' scenario_other_committed)
       = Inr (Entry \<lparr>dateUpdated = 1000, hash = 120\<rparr>)
   \<and> getHash (js_string ''x'') = 120
   \<and> 1121000 - 1000 > gracePeriodMilliseconds
   \<and> fst (getCached scenario_env ''a/b.txt''
            (observe ''a/b.txt'' (js_string ''x'') 1121000 scenario_other_committed))
       = Inr \<lparr>fileInfo_filePath = ''a/b.txt'', fileInfo_fileData = js_string ''x'',
               fileInfo_dateUpdated = 1121000, fileInfo_changed = False\<rparr>
   \<and> fst (getCached scenario_env ''a/b.txt''
            (observe ''a/b.txt'' (js_string ''x'') 1121000 scenario_committed))
       = Inr \<lparr>fileInfo_filePath = ''a/b.txt'', fileInfo_fileData = js_string ''x'',
               fileInfo_dateUpdated = 1121000, fileInfo_changed = True\<rparr>"
proof -
  let ?s = "observe ''a/b.txt'' (js_string ''x'') 1121000 scenario_other_committed"
  obtain s1 where c: "getCacheEntry scenario_env (getHashPath scenario_env ''a/b.txt'') ?s
                        = (Inr (Entry \<lparr>dateUpdated = 2000000, hash = 120\<rparr>), s1)"
    using consulted_other [of 1121000]
    by (cases "getCacheEntry scenario_env (getHashPath scenario_env ''a/b.txt'') ?s")
      (simp add: hashPath_a)
  from getCached_verdict [OF observed(1) observed(2) c] show ?thesis
    by (simp add: commit_other stored_other query_committed getHash_x gracePeriodMilliseconds_def)
qed

text \<open>The verdict of that run, read off the theorem.\<close>

theorem scenario_C_reported_unchanged_witness:
  "map_sum id fileInfo_changed
     (fst (getCached scenario_env ''a/b.txt''
             (observe ''a/b.txt'' (js_string ''x'') 1121000 scenario_other_committed)))
     = Inr False"
  using scenario_C_reported_unchanged by simp

text \<open>
  C5. A commit that finds the entry it is about to store returns it without assigning
  and without writing (\<open>setCacheEntry_skip\<close>), and for every path other than \<open>__proto__\<close> a
  second commit of the same content and timestamp finds it and writes nothing
  (\<open>commit_twice_ordinary\<close>). For the tracked file \<open>__proto__\<close> the second commit writes
  again: the first commit leaves the document \<open>{}\<close>; the second loads it, reads the key
  as \<open>Object.prototype\<close>, whose fields are undefined, so \<open>fileInfoComparer\<close> is false; it
  assigns (the prototype of the overlay's bucket is replaced) and calls \<open>writeFilep\<close> a
  second time. Both commits return \<open>{dateUpdated: 1000, hash: 120}\<close>; the log of writes
  has two calls.
\<close>

theorem proto_commit_twice_writes_twice:
  "updateCache scenario_env ''__proto__'' scenario_proto
     = (Inr \<lparr>dateUpdated = 1000, hash = 120\<rparr>, scenario_proto_committed)
   \<and> updateCache scenario_env ''__proto__'' scenario_proto_committed
     = (Inr \<lparr>dateUpdated = 1000, hash = 120\<rparr>, scenario_proto_committed_twice)
   \<and> setCacheEntry scenario_env 1000 ''__proto__'' (js_string ''x'') scenario_proto
     = (Inr \<lparr>dateUpdated = 1000, hash = 120\<rparr>, scenario_proto_committed)
   \<and> setCacheEntry scenario_env 1000 ''__proto__'' (js_string ''x'') scenario_proto_committed
     = (Inr \<lparr>dateUpdated = 1000, hash = 120\<rparr>, scenario_proto_committed_twice)
   \<and> writes scenario_proto = []
   \<and> writes scenario_proto_committed = [(''/r/.fs-hash/..json'', js_string ''{}'')]
   \<and> writes scenario_proto_committed_twice
       = [(''/r/.fs-hash/..json'', js_string ''{}''), (''/r/.fs-hash/..json'', js_string ''{}'')]"
proof -
  have "writes scenario_proto = []"
    by (simp add: scenario_proto_def observe_def scenario_start_def)
  moreover have "writes scenario_proto_committed = [(''/r/.fs-hash/..json'', js_string ''{}'')]"
    by (simp add: scenario_proto_committed_def document_empty_def)
  moreover have "writes scenario_proto_committed_twice
       = [(''/r/.fs-hash/..json'', js_string ''{}''), (''/r/.fs-hash/..json'', js_string ''{}'')]"
    by (simp add: scenario_proto_committed_twice_def document_empty_def)
  ultimately show ?thesis
    using update_proto update_proto_again commit_proto commit_proto_again by blast
qed

text \<open>The number of writes after the second commit, read off the theorem.\<close>

theorem proto_commit_twice_writes_twice_witness:
  "length (writes (snd (updateCache scenario_env ''__proto__''
                          (snd (updateCache scenario_env ''__proto__'' scenario_proto))))) = 2"
  using proto_commit_twice_writes_twice by simp

text \<open>
  C6. A load that has to read the document (the bucket is not in the overlay): when the
  read fails with \<open>ENOENT\<close> the load returns an empty bucket and changes nothing; when
  the read fails with any other error, or \<open>JSON.parse\<close> throws, the load fails with an
  error carrying the message.
\<close>

theorem getCacheFile_missing_or_unreadable:
  assumes "localCache s (getHashPath E filePath) = None"
    and "getHashPath E filePath \<noteq> []"
  shows "(files s (getHashPath E filePath) = Inl err \<and> code err = Some ''ENOENT''
            \<longrightarrow> getCacheFile E filePath s = (Inr (Fresh (object_of [])), s))
       \<and> (files s (getHashPath E filePath) = Inl err \<and> code err \<noteq> Some ''ENOENT''
            \<longrightarrow> getCacheFile E filePath s = (Inl (new_Error (message err)), s))
       \<and> (files s (getHashPath E filePath) = Inr data \<and> JSON_parse E data = Inl msg
            \<longrightarrow> getCacheFile E filePath s = (Inl (new_Error msg), s))"
  using assms by (simp add: getCacheFile_def readFile_def catch_handler_def new_Error_def)

text \<open>A missing document, a document that may not be read, and the malformed document \<open>{\<close>.\<close>

theorem getCacheFile_missing_or_unreadable_witness:
  "getCacheFile scenario_env ''a/b.txt'' scenario_start = (Inr (Fresh (object_of [])), scenario_start)
   \<and> fst (getCacheFile scenario_env ''a/b.txt''
            (scenario_start\<lparr>files := (files scenario_start)(''/r/.fs-hash/a.json'' := Inl EACCES)\<rparr>))
       = Inl (new_Error ''EACCES: permission denied'')
   \<and> fst (getCacheFile scenario_env ''a/b.txt''
            (scenario_start\<lparr>files := (files scenario_start)(''/r/.fs-hash/a.json'' := Inr (js_string ''{''))\<rparr>))
       = Inl (new_Error ''Unexpected end of JSON input'')"
  using getCacheFile_missing_or_unreadable [of scenario_start scenario_env "''a/b.txt''" ENOENT]
    getCacheFile_missing_or_unreadable
      [of "scenario_start\<lparr>files := (files scenario_start)(''/r/.fs-hash/a.json'' := Inl EACCES)\<rparr>"
          scenario_env "''a/b.txt''" EACCES]
    getCacheFile_missing_or_unreadable
      [of "scenario_start\<lparr>files := (files scenario_start)(''/r/.fs-hash/a.json'' := Inr (js_string ''{''))\<rparr>"
          scenario_env "''a/b.txt''" _ "js_string ''{''" "''Unexpected end of JSON input''"]
  by (simp add: hashPath_a scenario_start_def ENOENT_def EACCES_def scenario_env_JSON json_defs)



text \<open>
  C8. The query writes nothing and leaves every document and every bucket of the overlay
  as it was (it may load a bucket into the overlay). When it succeeds, its result
  carries the path, the content just read, the timestamp just observed, and the
  verdict computed from them and from the value it read; when that value is an entry,
  the verdict is \<open>hash \<noteq> entry.hash \<or> isNewer(dateUpdated, entry.dateUpdated)\<close>.
\<close>

theorem getCached_frame:
  assumes "getCached E filePath s = (r, s1)"
  shows "files s1 = files s \<and> writes s1 = writes s
       \<and> (\<forall>k bucket. localCache s k = Some bucket \<longrightarrow> localCache s1 k = Some bucket)
       \<and> (\<forall>fileInfo. r = Inr fileInfo \<longrightarrow>
            fileInfo_filePath fileInfo = filePath
          \<and> readFile s filePath = Inr (fileInfo_fileData fileInfo)
          \<and> stat s filePath = Inr (fileInfo_dateUpdated fileInfo)
          \<and> (\<exists>cacheEntry. fst (getCacheEntry E (getHashPath E filePath) s) = Inr cacheEntry
                \<and> fileInfo_changed fileInfo
                    = (hash_of cacheEntry \<noteq> Some (getHash (fileInfo_fileData fileInfo))
                       \<or> (case dateUpdated_of cacheEntry of
                             Some d \<Rightarrow> isNewer (fileInfo_dateUpdated fileInfo) d
                           | None \<Rightarrow> False))
                \<and> (\<forall>entry. cacheEntry = Entry entry \<longrightarrow>
                      fileInfo_changed fileInfo
                        = (getHash (fileInfo_fileData fileInfo) \<noteq> hash entry
                           \<or> isNewer (fileInfo_dateUpdated fileInfo) (dateUpdated entry)))))"
proof -
  obtain r0 s0 where ce: "getCacheEntry E (getHashPath E filePath) s = (r0, s0)"
    by (cases "getCacheEntry E (getHashPath E filePath) s")
  note fr = getCacheEntry_frame [OF ce]
  have "s1 = s \<or> s1 = s0"
    using assms ce by (auto simp: getCached_def split: sum.splits)
  then have "files s1 = files s" "writes s1 = writes s"
      "\<forall>k bucket. localCache s k = Some bucket \<longrightarrow> localCache s1 k = Some bucket"
    using fr by auto
  moreover have "\<forall>fileInfo. r = Inr fileInfo \<longrightarrow>
            fileInfo_filePath fileInfo = filePath
          \<and> readFile s filePath = Inr (fileInfo_fileData fileInfo)
          \<and> stat s filePath = Inr (fileInfo_dateUpdated fileInfo)
          \<and> (\<exists>cacheEntry. fst (getCacheEntry E (getHashPath E filePath) s) = Inr cacheEntry
                \<and> fileInfo_changed fileInfo
                    = (hash_of cacheEntry \<noteq> Some (getHash (fileInfo_fileData fileInfo))
                       \<or> (case dateUpdated_of cacheEntry of
                             Some d \<Rightarrow> isNewer (fileInfo_dateUpdated fileInfo) d
                           | None \<Rightarrow> False))
                \<and> (\<forall>entry. cacheEntry = Entry entry \<longrightarrow>
                      fileInfo_changed fileInfo
                        = (getHash (fileInfo_fileData fileInfo) \<noteq> hash entry
                           \<or> isNewer (fileInfo_dateUpdated fileInfo) (dateUpdated entry))))"
  proof (intro allI impI)
    fix fileInfo
    assume r: "r = Inr fileInfo"
    from assms r ce obtain ctime fileData cacheEntry where
      st: "stat s filePath = Inr ctime" and rd: "readFile s filePath = Inr fileData"
      and r0: "r0 = Inr cacheEntry"
      and fi: "fileInfo = \<lparr>fileInfo_filePath = filePath, fileInfo_fileData = fileData,
                 fileInfo_dateUpdated = ctime,
                 fileInfo_changed = (hash_of cacheEntry \<noteq> Some (getHash fileData)
                                     \<or> (case dateUpdated_of cacheEntry of
                                           Some d \<Rightarrow> isNewer ctime d
                                         | None \<Rightarrow> False))\<rparr>"
      by (auto simp: getCached_def Let_def split: sum.splits)
    have sel: "fileInfo_filePath fileInfo = filePath" "fileInfo_fileData fileInfo = fileData"
      "fileInfo_dateUpdated fileInfo = ctime"
      using fi by simp_all
    have v: "fileInfo_changed fileInfo
               = (hash_of cacheEntry \<noteq> Some (getHash fileData)
                  \<or> (case dateUpdated_of cacheEntry of
                        Some d \<Rightarrow> isNewer ctime d
                      | None \<Rightarrow> False))"
      using fi by simp
    have e: "\<forall>entry. cacheEntry = Entry entry \<longrightarrow>
               fileInfo_changed fileInfo
                 = (getHash fileData \<noteq> hash entry \<or> isNewer ctime (dateUpdated entry))"
      unfolding v by (auto simp: hash_of_def dateUpdated_of_def)
    have c: "fst (getCacheEntry E (getHashPath E filePath) s) = Inr cacheEntry"
      using ce r0 by simp
    show "fileInfo_filePath fileInfo = filePath
          \<and> readFile s filePath = Inr (fileInfo_fileData fileInfo)
          \<and> stat s filePath = Inr (fileInfo_dateUpdated fileInfo)
          \<and> (\<exists>cacheEntry. fst (getCacheEntry E (getHashPath E filePath) s) = Inr cacheEntry
                \<and> fileInfo_changed fileInfo
                    = (hash_of cacheEntry \<noteq> Some (getHash (fileInfo_fileData fileInfo))
                       \<or> (case dateUpdated_of cacheEntry of
                             Some d \<Rightarrow> isNewer (fileInfo_dateUpdated fileInfo) d
                           | None \<Rightarrow> False))
                \<and> (\<forall>entry. cacheEntry = Entry entry \<longrightarrow>
                      fileInfo_changed fileInfo
                        = (getHash (fileInfo_fileData fileInfo) \<noteq> hash entry
                           \<or> isNewer (fileInfo_dateUpdated fileInfo) (dateUpdated entry))))"
      unfolding sel using st rd c v e by blast
  qed
  ultimately show ?thesis by blast
qed

text \<open>
  A query after Scenario A, the bucket of \<open>a/b.txt\<close> in the overlay and the file seen at
  time 1100: the state is the one it started in, the bucket included; the value read
  is the zero entry.
\<close>

theorem getCached_frame_witness:
  "getCached scenario_env ''a/b.txt'' (observe ''a/b.txt'' (js_string ''x'') 1100 scenario_loaded)
     = (Inr \<lparr>fileInfo_filePath = ''a/b.txt'', fileInfo_fileData = js_string ''x'',
             fileInfo_dateUpdated = 1100, fileInfo_changed = True\<rparr>,
        observe ''a/b.txt'' (js_string ''x'') 1100 scenario_loaded)
   \<and> readFile (observe ''a/b.txt'' (js_string ''x'') 1100 scenario_loaded) ''a/b.txt''
       = Inr (js_string ''x'')
   \<and> stat (observe ''a/b.txt'' (js_string ''x'') 1100 scenario_loaded) ''a/b.txt'' = Inr 1100
   \<and> localCache (observe ''a/b.txt'' (js_string ''x'') 1100 scenario_loaded) ''/r/.fs-hash/a.json''
       = Some (object_of [(''a/b.txt'', \<lparr>dateUpdated = 1000, hash = 120\<rparr>)])
   \<and> fst (getCacheEntry scenario_env (getHashPath scenario_env ''a/b.txt'')
            (observe ''a/b.txt'' (js_string ''x'') 1100 scenario_loaded))
       = Inr (Entry \<lparr>dateUpdated = 0, hash = 0\<rparr>)"
proof -
  have "localCache (observe ''a/b.txt'' (js_string ''x'') 1100 scenario_loaded) ''/r/.fs-hash/a.json''
          = Some (object_of [(''a/b.txt'', \<lparr>dateUpdated = 1000, hash = 120\<rparr>)])"
    by (simp add: observe_def scenario_loaded_def)
  with getCached_frame [OF query_loaded [of 1100]] query_loaded [of 1100] show ?thesis
    by (simp add: hashPath_a consulted_loaded)
qed

text \<open>
  C9. The fingerprint of the empty text is 0, and the fingerprint of every text is a
  32-bit signed integer. \<open>getHash\<close> is a function of the text alone (it reads no state),
  so two applications to the same text return the same number.
\<close>

theorem getHash_deterministic_int32:
  "getHash [] = 0 \<and> getHash str = getHash str
   \<and> - (2 ^ 31) \<le> getHash str \<and> getHash str < 2 ^ 31"
proof -
  have "- (2 ^ 31) \<le> getHash str \<and> getHash str < 2 ^ 31"
    using foldl_hash_step_range [of 0 str] by (simp add: getHash_def)
  then show ?thesis
    by (simp add: getHash_def)
qed

text \<open>
  C10. A bucket enters the overlay only where a load has read its document and parsed
  it: (1) a key that a load adds to the overlay is the bucket's key, and the bucket
  stored is the object \<open>JSON.parse\<close> built from the document; (2) the empty bucket made up
  for a missing document leaves the state, hence the overlay, as it was; (3) a key
  that a commit adds to the overlay is the bucket's key, and its document was read and
  parsed; (4) a commit that finds no document writes one, the serialisation of \<open>{}\<close>
  after the assignment, and leaves the overlay as it was; (5, 6) the same as (1) and
  (3) for the exported operations \<open>getCached\<close>, which loads the bucket of \<open>hashPath\<close>, and
  \<open>updateCache\<close>.
\<close>

theorem localCache_only_from_parsed_documents:
  "(getCacheFile E filePath s = (r, s1) \<and> localCache s k = None \<and> localCache s1 k = Some bucket
      \<longrightarrow> k = getHashPath E filePath
          \<and> (\<exists>data parsed. files s k = Inr data \<and> JSON_parse E data = Inr parsed
                \<and> bucket = object_of parsed))
   \<and> (localCache s (getHashPath E filePath) = None \<and> getHashPath E filePath \<noteq> []
       \<and> files s (getHashPath E filePath) = Inl err \<and> code err = Some ''ENOENT''
      \<longrightarrow> getCacheFile E filePath s = (Inr (Fresh (object_of [])), s))
   \<and> (setCacheEntry E d filePath fileData s = (r', s2)
       \<and> localCache s k = None \<and> localCache s2 k = Some bucket
      \<longrightarrow> k = getHashPath E filePath
          \<and> (\<exists>data parsed. files s k = Inr data \<and> JSON_parse E data = Inr parsed))
   \<and> (localCache s (getHashPath E filePath) = None
       \<and> files s (getHashPath E filePath) = Inl err \<and> code err = Some ''ENOENT''
       \<and> setCacheEntry E d filePath fileData s = (Inr cacheEntry, s2)
      \<longrightarrow> localCache s2 = localCache s
          \<and> files s2 (getHashPath E filePath)
              = Inr (JSON_stringify E (own (set_property (object_of []) filePath cacheEntry))))
   \<and> (getCached E filePath s = (q, s3) \<and> localCache s k = None \<and> localCache s3 k = Some bucket
      \<longrightarrow> k = getHashPath E (getHashPath E filePath)
          \<and> (\<exists>data parsed. files s k = Inr data \<and> JSON_parse E data = Inr parsed
                \<and> bucket = object_of parsed))
   \<and> (updateCache E filePath s = (u, s4) \<and> localCache s k = None \<and> localCache s4 k = Some bucket
      \<longrightarrow> k = getHashPath E filePath
          \<and> (\<exists>data parsed. files s k = Inr data \<and> JSON_parse E data = Inr parsed))"
proof (intro conjI impI)
  assume "getCacheFile E filePath s = (r, s1) \<and> localCache s k = None \<and> localCache s1 k = Some bucket"
  then show "k = getHashPath E filePath"
      and "\<exists>data parsed. files s k = Inr data \<and> JSON_parse E data = Inr parsed
             \<and> bucket = object_of parsed"
    using getCacheFile_overlay_growth [of E filePath s r s1 k bucket] by simp_all
next
  assume "localCache s (getHashPath E filePath) = None \<and> getHashPath E filePath \<noteq> []
       \<and> files s (getHashPath E filePath) = Inl err \<and> code err = Some ''ENOENT''"
  then show "getCacheFile E filePath s = (Inr (Fresh (object_of [])), s)"
    using getCacheFile_missing_document by blast
next
  assume "setCacheEntry E d filePath fileData s = (r', s2)
       \<and> localCache s k = None \<and> localCache s2 k = Some bucket"
  then show "k = getHashPath E filePath"
      and "\<exists>data parsed. files s k = Inr data \<and> JSON_parse E data = Inr parsed"
    using setCacheEntry_overlay_growth [of E d filePath fileData s r' s2 k bucket] by blast+
next
  assume a: "localCache s (getHashPath E filePath) = None
       \<and> files s (getHashPath E filePath) = Inl err \<and> code err = Some ''ENOENT''
       \<and> setCacheEntry E d filePath fileData s = (Inr cacheEntry, s2)"
  then show "localCache s2 = localCache s"
      and "files s2 (getHashPath E filePath)
             = Inr (JSON_stringify E (own (set_property (object_of []) filePath cacheEntry)))"
    using setCacheEntry_creates_bucket [of s E filePath err d fileData cacheEntry s2] by simp_all
next
  assume "getCached E filePath s = (q, s3) \<and> localCache s k = None \<and> localCache s3 k = Some bucket"
  then show "k = getHashPath E (getHashPath E filePath)"
      and "\<exists>data parsed. files s k = Inr data \<and> JSON_parse E data = Inr parsed
             \<and> bucket = object_of parsed"
    using getCached_overlay_growth [of E filePath s q s3 k bucket] by blast+
next
  assume "updateCache E filePath s = (u, s4) \<and> localCache s k = None \<and> localCache s4 k = Some bucket"
  then show "k = getHashPath E filePath"
      and "\<exists>data parsed. files s k = Inr data \<and> JSON_parse E data = Inr parsed"
    using updateCache_overlay_growth [of E filePath s u s4 k bucket] by blast+
qed

text \<open>
  Scenario A leaves the overlay empty although the document is written; the load, the
  commit and the update that follow read and parse the document and put the bucket
  into the overlay. A query puts the bucket of \<open>hashPath\<close> into the overlay when that
  bucket has a document.
\<close>

theorem localCache_only_from_parsed_documents_witness:
  "getCacheFile scenario_env ''a/b.txt'' scenario_start = (Inr (Fresh (object_of [])), scenario_start)
   \<and> setCacheEntry scenario_env 1000 ''a/b.txt'' (js_string ''x'') scenario_start
       = (Inr \<lparr>dateUpdated = 1000, hash = 120\<rparr>, scenario_committed)
   \<and> localCache scenario_committed = Map.empty
   \<and> files scenario_committed ''/r/.fs-hash/a.json'' = Inr document_a
   \<and> getCacheFile scenario_env ''a/b.txt'' scenario_committed
       = (Inr (InOverlay (object_of [(''a/b.txt'', \<lparr>dateUpdated = 1000, hash = 120\<rparr>)])),
          scenario_loaded)
   \<and> updateCache scenario_env ''a/b.txt'' scenario_committed
       = (Inr \<lparr>dateUpdated = 1000, hash = 120\<rparr>, scenario_loaded)
   \<and> localCache scenario_loaded ''/r/.fs-hash/a.json''
       = Some (object_of [(''a/b.txt'', \<lparr>dateUpdated = 1000, hash = 120\<rparr>)])
   \<and> scenario_parse document_a = Inr [(''a/b.txt'', \<lparr>dateUpdated = 1000, hash = 120\<rparr>)]
   \<and> localCache (snd (getCached scenario_env ''a/b.txt''
                          (observe ''a/b.txt'' (js_string ''x'') 1100 scenario_same)))
         ''/r/.fs-hash.json''
       = Some (object_of [(''/r/.fs-hash/a.json'', \<lparr>dateUpdated = 1000, hash = 120\<rparr>)])
   \<and> files (observe ''a/b.txt'' (js_string ''x'') 1100 scenario_same) ''/r/.fs-hash.json''
       = Inr document_same
   \<and> scenario_parse document_same
       = Inr [(''/r/.fs-hash/a.json'', \<lparr>dateUpdated = 1000, hash = 120\<rparr>)]"
proof -
  let ?hp = "getHashPath scenario_env ''a/b.txt''"
  let ?b = "object_of [(''a/b.txt'', \<lparr>dateUpdated = 1000, hash = 120\<rparr>)]"
  let ?q = "observe ''a/b.txt'' (js_string ''x'') 1100 scenario_same"
  let ?b' = "object_of [(''/r/.fs-hash/a.json'', \<lparr>dateUpdated = 1000, hash = 120\<rparr>)]"
  have start: "localCache scenario_start ?hp = None \<and> ?hp \<noteq> []
      \<and> files scenario_start ?hp = Inl ENOENT \<and> code ENOENT = Some ''ENOENT''"
    by (simp add: hashPath_a scenario_start_def ENOENT_def)
  have overlay: "localCache scenario_committed ?hp = None \<and> localCache scenario_loaded ?hp = Some ?b"
    by (simp add: hashPath_a scenario_loaded_def scenario_committed_def scenario_start_def)
  with load_committed
  have grow: "getCacheFile scenario_env ''a/b.txt'' scenario_committed = (Inr (InOverlay ?b), scenario_loaded)
      \<and> localCache scenario_committed ?hp = None \<and> localCache scenario_loaded ?hp = Some ?b"
    by blast
  have grow': "setCacheEntry scenario_env 1000 ''a/b.txt'' (js_string ''x'') scenario_committed
                 = (Inr \<lparr>dateUpdated = 1000, hash = 120\<rparr>, scenario_loaded)
      \<and> localCache scenario_committed ?hp = None \<and> localCache scenario_loaded ?hp = Some ?b"
    using overlay commit_again by blast
  have grow'': "updateCache scenario_env ''a/b.txt'' scenario_committed
                 = (Inr \<lparr>dateUpdated = 1000, hash = 120\<rparr>, scenario_loaded)
      \<and> localCache scenario_committed ?hp = None \<and> localCache scenario_loaded ?hp = Some ?b"
    using overlay update_again by blast
  have query: "getCached scenario_env ''a/b.txt'' ?q
                 = (fst (getCached scenario_env ''a/b.txt'' ?q), snd (getCached scenario_env ''a/b.txt'' ?q))
      \<and> localCache ?q ''/r/.fs-hash.json'' = None
      \<and> localCache (snd (getCached scenario_env ''a/b.txt'' ?q)) ''/r/.fs-hash.json'' = Some ?b'"
    using query_same_loads [of 1100] by simp
  note inst = localCache_only_from_parsed_documents
                [where E = scenario_env and filePath = "''a/b.txt''" and s = scenario_committed
                   and r = "Inr (InOverlay ?b)" and ?s1.0 = scenario_loaded
                   and k = ?hp and bucket = ?b and d = 1000 and fileData = "js_string ''x''"
                   and r' = "Inr \<lparr>dateUpdated = 1000, hash = 120\<rparr>" and ?s2.0 = scenario_loaded
                   and u = "Inr \<lparr>dateUpdated = 1000, hash = 120\<rparr>" and ?s4.0 = scenario_loaded]
  from inst grow have read: "\<exists>data parsed. files scenario_committed ?hp = Inr data
      \<and> JSON_parse scenario_env data = Inr parsed \<and> ?b = object_of parsed"
    by blast
  from inst grow' have read': "\<exists>data parsed. files scenario_committed ?hp = Inr data
      \<and> JSON_parse scenario_env data = Inr parsed"
    by blast
  from inst grow'' have read'': "\<exists>data parsed. files scenario_committed ?hp = Inr data
      \<and> JSON_parse scenario_env data = Inr parsed"
    by blast
  from query
    localCache_only_from_parsed_documents
      [where E = scenario_env and filePath = "''a/b.txt''" and s = ?q
         and q = "fst (getCached scenario_env ''a/b.txt'' ?q)"
         and ?s3.0 = "snd (getCached scenario_env ''a/b.txt'' ?q)"
         and k = "''/r/.fs-hash.json''" and bucket = ?b']
  have read_q: "''/r/.fs-hash.json'' = getHashPath scenario_env ?hp
      \<and> (\<exists>data parsed. files ?q ''/r/.fs-hash.json'' = Inr data
            \<and> JSON_parse scenario_env data = Inr parsed \<and> ?b' = object_of parsed)"
    by blast
  from start
    localCache_only_from_parsed_documents
      [where E = scenario_env and filePath = "''a/b.txt''" and s = scenario_start and err = ENOENT]
  have fresh: "getCacheFile scenario_env ''a/b.txt'' scenario_start
                 = (Inr (Fresh (object_of [])), scenario_start)"
    by blast
  from start scenario_A_set
    localCache_only_from_parsed_documents
      [where E = scenario_env and filePath = "''a/b.txt''" and s = scenario_start and err = ENOENT
         and d = 1000 and fileData = "js_string ''x''" and ?s2.0 = scenario_committed
         and cacheEntry = "\<lparr>dateUpdated = 1000, hash = 120\<rparr>"]
  have created: "localCache scenario_committed = localCache scenario_start
      \<and> files scenario_committed ?hp
          = Inr (JSON_stringify scenario_env
                   (own (set_property (object_of []) ''a/b.txt'' \<lparr>dateUpdated = 1000, hash = 120\<rparr>)))"
    by blast
  have empty: "localCache scenario_start = Map.empty"
    by (simp add: scenario_start_def)
  have doc: "files ?q ''/r/.fs-hash.json'' = Inr document_same"
    by (simp add: observe_def scenario_same_def scenario_start_def)
  from fresh created grow grow'' query empty doc scenario_A_set show ?thesis
    by (simp add: hashPath_a scenario_env_JSON stringify_a parse_a parse_same
                  own_set_property_empty)
qed

end
